theory Spec2Isabelle
  imports Main
begin

section \<open>Common vocabulary\<close>

text \<open>
  A \<^verbatim>\<open>fail << ...\<close> diagnostic throws \<^verbatim>\<open>failed\<close>; it is the value \<open>Fail msg\<close>, the
  message being the literal head of the diagnostic. A violated \<^verbatim>\<open>assert\<close> aborts the
  process; it is the value \<open>AssertFail\<close>. Indexing a vector outside its bounds, which
  the source never checks, is the value \<open>OutOfRange\<close>. A call through a function pointer
  that is \<^verbatim>\<open>nullptr\<close> is the value \<open>NullCall\<close>.
\<close>

datatype error = Fail string | AssertFail | OutOfRange | NullCall

text \<open>
  \<^verbatim>\<open>std::stoul (s, &n)\<close> of the standard library, for a 64-bit \<^verbatim>\<open>unsigned long\<close>: leading
  white space, an optional sign and decimal digits are read; the result is the value
  (negated modulo \<open>2^64\<close> after a minus sign) and the number of characters read. \<open>None\<close>
  stands for the exception it throws when there is no digit or the value is out of
  range.
\<close>

definition isspace :: "char \<Rightarrow> bool" where
  "isspace c \<longleftrightarrow> (of_char c :: nat) = 32 \<or> ((9 :: nat) \<le> of_char c \<and> (of_char c :: nat) \<le> 13)"

definition isdigit :: "char \<Rightarrow> bool" where
  "isdigit c \<longleftrightarrow> (48 :: nat) \<le> of_char c \<and> (of_char c :: nat) \<le> 57"

definition decimal :: "string \<Rightarrow> nat" where
  "decimal ds = foldl (\<lambda>v c. 10 * v + (of_char c - 48)) 0 ds"

definition stoul :: "string \<Rightarrow> (nat \<times> nat) option" where
  "stoul s =
     (let ws = takeWhile isspace s;
          r = dropWhile isspace s;
          neg = (r \<noteq> [] \<and> hd r = CHR ''-'');
          sign = (if r \<noteq> [] \<and> (hd r = CHR ''-'' \<or> hd r = CHR ''+'') then 1 else 0);
          ds = takeWhile isdigit (drop sign r)
      in if ds = [] then None
         else if decimal ds > 2 ^ 64 - 1 then None
         else Some (if neg then (2 ^ 64 - decimal ds) mod 2 ^ 64 else decimal ds,
                    length ws + sign + length ds))"

section \<open>build2/target.cxx: targets\<close>

datatype target_state = unknown | unchanged | postponed | changed | failed | group

text \<open>
  A \<^verbatim>\<open>recipe\<close> is a \<^verbatim>\<open>std::function\<close>: empty, holding a plain function pointer
  (\<^verbatim>\<open>recipe_.target<recipe_function*> ()\<close> is then non-null), or holding some other
  callable.
\<close>

datatype recipe_function = noop_action | default_action | group_action | other_action nat

datatype recipe_type = empty_recipe | function_pointer recipe_function | callable nat

definition noop_recipe :: recipe_type where
  "noop_recipe = function_pointer noop_action"

text \<open>
  A target type descriptor (\<^verbatim>\<open>target_type\<close>) with the members this file reads: the name,
  the factory, the extension function and the print function (one of the two of this
  file); a function pointer that is \<^verbatim>\<open>nullptr\<close> is \<open>None\<close>. A pointer to a factory
  names one of the factories of this file or the template \<^verbatim>\<open>target_factory<T>\<close>; one to
  \<^verbatim>\<open>file_factory<T, ext>\<close> carries the template argument \<open>ext\<close> (\<open>None\<close> for
  \<^verbatim>\<open>nullptr\<close>). An extension function is applied to a target key and the base scope:
  with the scope fixed it is a function of the key's name, the only component the
  functions of this file read, and it yields the extension (\<open>None\<close> for \<^verbatim>\<open>nullptr\<close>) or
  fails. Extensions are interned in the extension pool, so a pointer to one is the
  string itself.
\<close>

datatype factory =
    target_factory_ptr | file_factory_ptr "string option" | buildfile_factory_ptr | man_factory_ptr

datatype print_function = target_print_0_ext_verb | target_print_1_ext_verb

record target_type =
  tt_name :: string
  tt_factory :: "factory option"
  tt_extension :: "(string \<Rightarrow> error + string option) option"
  tt_print :: "print_function option"

text \<open>
  The class tower \<^verbatim>\<open>target\<close>, \<^verbatim>\<open>mtime_target\<close>, \<^verbatim>\<open>path_target\<close> as record extensions. An
  action is an integer. The private members \<^verbatim>\<open>recipe_\<close>, \<^verbatim>\<open>mtime_\<close> and \<^verbatim>\<open>path_\<close> are the
  fields \<open>recipe_m\<close>, \<open>mtime_m\<close> and \<open>path_m\<close>.
\<close>

type_synonym timestamp = int

record target =
  type :: target_type
  dir :: string
  out :: string
  name :: string
  ext :: "string option"
  action :: nat
  recipe_m :: recipe_type
  raw_state :: target_state
  dependents :: nat

record mtime_target = target +
  mtime_m :: timestamp

record path_target = mtime_target +
  path_m :: string

subsection \<open>target::recipe\<close>

text \<open>
  \<^verbatim>\<open>target::recipe (action_type a, recipe_type r)\<close>. The comparisons \<^verbatim>\<open>a > action\<close> and
  \<^verbatim>\<open>a == action\<close> are operators of \<^verbatim>\<open>action\<close>, declared outside this file; they are the
  parameters \<open>gt\<close> and \<open>eq\<close>.
\<close>

definition recipe ::
  "(nat \<Rightarrow> nat \<Rightarrow> bool) \<Rightarrow> (nat \<Rightarrow> nat \<Rightarrow> bool) \<Rightarrow> nat \<Rightarrow> recipe_type \<Rightarrow>
     'a target_scheme \<Rightarrow> error + 'a target_scheme" where
  "recipe gt eq a r t =
     (if \<not> (gt a (action t) \<or> recipe_m t = empty_recipe) then Inl AssertFail
      else
        let override = (eq a (action t) \<and> recipe_m t \<noteq> empty_recipe) in
        if override \<and> recipe_m t \<noteq> function_pointer noop_action then Inl AssertFail
        else
          let t1 = t\<lparr>action := a, recipe_m := r, raw_state := unknown\<rparr>;
              t2 = (if r = function_pointer noop_action
                    then t1\<lparr>raw_state := unchanged\<rparr> else t1)
          in Inr (if \<not> override then t2\<lparr>dependents := 0\<rparr> else t2))"

subsection \<open>Target keys and printing a target\<close>

text \<open>
  \<^verbatim>\<open>target_key\<close> is the tuple \<^verbatim>\<open>(type*, dir*, out*, name, ext*)\<close>.
\<close>

record target_key =
  ktype :: target_type
  kdir :: string
  kout :: string
  kname :: string
  kext :: "string option"

text \<open>
  Modelled from the spec: the equality of \<^verbatim>\<open>target_key\<close>, which \<^verbatim>\<open>map_.find (k)\<close> uses and
  which is declared with the class outside this file. Targets are identified by their
  key; an extension of \<^verbatim>\<open>nullptr\<close> means "not yet decided", so a key with an unspecified
  extension stands for the target whatever extension the other key has (a lookup with
  a more specific extension finds the target whose extension was \<^verbatim>\<open>nullptr\<close>), while
  two decided extensions are compared.
\<close>

definition key_eq :: "target_key \<Rightarrow> target_key \<Rightarrow> bool" where
  "key_eq x y \<longleftrightarrow>
     ktype x = ktype y \<and> kdir x = kdir y \<and> kout x = kout y \<and> kname x = kname y \<and>
     (kext x = None \<or> kext y = None \<or> kext x = kext y)"

text \<open>
  The key of a target (\<^verbatim>\<open>target::key ()\<close>), which is also the key under which \<^verbatim>\<open>insert\<close>
  stores it, \<^verbatim>\<open>target_key {&tt, &pt->dir, &pt->out, &pt->name, pt->ext}\<close>: it points at the
  members of the owned target, so it is read off the target.
\<close>

definition key :: "'a target_scheme \<Rightarrow> target_key" where
  "key t = \<lparr>ktype = type t, kdir = dir t, kout = out t, kname = name t, kext = ext t\<rparr>"






subsection \<open>path_target::derive_extension and path_target::derive_path\<close>



subsection \<open>Target types and their factories\<close>

text \<open>
  Modelled from the spec: the constructor of a target class, which takes the key
  components (directory, out directory, name, extension) and is declared with the
  classes outside this file. A new target has no recipe, an unknown state and no
  dependents. Its descriptor is the one \<^verbatim>\<open>insert\<close> stores it under.
\<close>

definition new_target :: "target_type \<Rightarrow> string \<Rightarrow> string \<Rightarrow> string \<Rightarrow> string option \<Rightarrow> target" where
  "new_target tt d o' n e =
     \<lparr>type = tt, dir = d, out = o', name = n, ext = e,
      action = 0, recipe_m = empty_recipe, raw_state = unknown, dependents = 0\<rparr>"

text \<open>
  \<^verbatim>\<open>file_factory<T, ext>\<close>: an unspecified extension is replaced by the fixed one when
  there is one and the factory is the one of \<open>tt\<close> itself (\<open>tt\<close> is not a dynamically
  derived type).
\<close>

definition file_factory ::
  "string option \<Rightarrow> target_type \<Rightarrow> string \<Rightarrow> string \<Rightarrow> string \<Rightarrow> string option \<Rightarrow>
     error + target" where
  "file_factory fixed tt d o' n e =
     Inr (new_target tt d o' n
            (if e \<noteq> None \<or> fixed = None \<or> tt_factory tt \<noteq> Some (file_factory_ptr fixed)
             then e else fixed))"

text \<open>
  \<^verbatim>\<open>buildfile_factory\<close>: an unspecified extension becomes the empty one for the name
  \<open>buildfile\<close> and \<open>build\<close> otherwise.
\<close>

definition buildfile_factory ::
  "target_type \<Rightarrow> string \<Rightarrow> string \<Rightarrow> string \<Rightarrow> string option \<Rightarrow> error + target" where
  "buildfile_factory tt d o' n e =
     Inr (new_target tt d o' n
            (if e = None then Some (if n = ''buildfile'' then [] else ''build'') else e))"

text \<open>\<^verbatim>\<open>man_factory\<close>: a manual page must come with its section as the extension.\<close>

definition man_factory ::
  "target_type \<Rightarrow> string \<Rightarrow> string \<Rightarrow> string \<Rightarrow> string option \<Rightarrow> error + target" where
  "man_factory tt d o' n e =
     (if e = None then Inl (Fail ''man target'')
      else Inr (new_target tt d o' n e))"

text \<open>
  Modelled from the spec: the template \<^verbatim>\<open>target_factory<T>\<close>, declared outside this file,
  the factory \<^verbatim>\<open>(type, dir, out, name, ext*) \<rightarrow> target\<close> that constructs the target from
  the components as they are.
\<close>

definition target_factory ::
  "target_type \<Rightarrow> string \<Rightarrow> string \<Rightarrow> string \<Rightarrow> string option \<Rightarrow> error + target" where
  "target_factory tt d o' n e = Inr (new_target tt d o' n e)"

text \<open>The call \<^verbatim>\<open>f (tt, d, o, n, e)\<close> through a pointer to a factory.\<close>

definition call_factory ::
  "factory \<Rightarrow> target_type \<Rightarrow> string \<Rightarrow> string \<Rightarrow> string \<Rightarrow> string option \<Rightarrow> error + target" where
  "call_factory f tt d o' n e =
     (case f of
        target_factory_ptr \<Rightarrow> target_factory tt d o' n e
      | file_factory_ptr fixed \<Rightarrow> file_factory fixed tt d o' n e
      | buildfile_factory_ptr \<Rightarrow> buildfile_factory tt d o' n e
      | man_factory_ptr \<Rightarrow> man_factory tt d o' n e)"

text \<open>
  The extension functions of this file, \<^verbatim>\<open>target_extension_null\<close>,
  \<^verbatim>\<open>target_extension_assert\<close> and \<^verbatim>\<open>buildfile_target_extension\<close>.
\<close>

definition target_extension_null :: "string \<Rightarrow> error + string option" where
  "target_extension_null n = Inr None"

definition target_extension_assert :: "string \<Rightarrow> error + string option" where
  "target_extension_assert n = Inl AssertFail"

definition buildfile_target_extension :: "string \<Rightarrow> error + string option" where
  "buildfile_target_extension n = Inr (Some (if n = ''buildfile'' then [] else ''build''))"

text \<open>
  The descriptors (\<^verbatim>\<open>static_type\<close>) of this file. The extension functions
  \<^verbatim>\<open>target_extension_var<file_ext_var, file_ext_def>\<close> and \<^verbatim>\<open>target_extension_fix<man1_ext>\<close>
  are instances of templates declared outside this file; they are the parameters \<open>var_ext\<close>
  and \<open>fix_ext\<close>.
\<close>

definition target_type_target :: target_type where
  "target_type_target =
     \<lparr>tt_name = ''target'', tt_factory = None,
      tt_extension = None, tt_print = None\<rparr>"

definition mtime_target_type :: target_type where
  "mtime_target_type =
     \<lparr>tt_name = ''mtime_target'', tt_factory = None,
      tt_extension = None, tt_print = None\<rparr>"


definition file_type :: "(string \<Rightarrow> error + string option) \<Rightarrow> target_type" where
  "file_type var_ext =
     \<lparr>tt_name = ''file'', tt_factory = Some (file_factory_ptr (Some [])),
      tt_extension = Some var_ext, tt_print = Some target_print_1_ext_verb\<rparr>"

definition alias_type :: target_type where
  "alias_type =
     \<lparr>tt_name = ''alias'', tt_factory = Some target_factory_ptr,
      tt_extension = None, tt_print = None\<rparr>"

definition dir_type :: target_type where
  "dir_type =
     \<lparr>tt_name = ''dir'', tt_factory = Some target_factory_ptr,
      tt_extension = None, tt_print = None\<rparr>"

definition fsdir_type :: target_type where
  "fsdir_type =
     \<lparr>tt_name = ''fsdir'', tt_factory = Some target_factory_ptr,
      tt_extension = None, tt_print = None\<rparr>"

definition buildfile_type :: target_type where
  "buildfile_type =
     \<lparr>tt_name = ''build'', tt_factory = Some buildfile_factory_ptr,
      tt_extension = Some buildfile_target_extension, tt_print = None\<rparr>"

definition doc_type :: "(string \<Rightarrow> error + string option) \<Rightarrow> target_type" where
  "doc_type var_ext =
     \<lparr>tt_name = ''doc'', tt_factory = Some (file_factory_ptr (Some [])),
      tt_extension = Some var_ext, tt_print = Some target_print_1_ext_verb\<rparr>"

definition man_type :: target_type where
  "man_type =
     \<lparr>tt_name = ''man'', tt_factory = Some man_factory_ptr,
      tt_extension = Some target_extension_null, tt_print = Some target_print_1_ext_verb\<rparr>"

definition man1_type :: "(string \<Rightarrow> error + string option) \<Rightarrow> target_type" where
  "man1_type fix_ext =
     \<lparr>tt_name = ''man1'', tt_factory = Some (file_factory_ptr (Some ''1'')),
      tt_extension = Some fix_ext, tt_print = Some target_print_0_ext_verb\<rparr>"

subsection \<open>target_set::find and target_set::insert\<close>

text \<open>
  \<^verbatim>\<open>map_\<close> owns the targets; it is the list of them in insertion order, and a target is
  referred to by its position. \<^verbatim>\<open>map_.find (k)\<close> yields a stored target whose key equals
  \<open>k\<close> (the first one here), or \<^verbatim>\<open>end ()\<close>, which is \<open>None\<close>. What \<^verbatim>\<open>find\<close> writes to
  the trace at verbosity level 5 is left out.
\<close>

type_synonym target_set = "target list"

fun map_find :: "target_key \<Rightarrow> target list \<Rightarrow> nat option" where
  "map_find k [] = None"
| "map_find k (t # ts) =
     (if key_eq (key t) k then Some 0
      else (case map_find k ts of None \<Rightarrow> None | Some i \<Rightarrow> Some (Suc i)))"

definition find_ts :: "target_key \<Rightarrow> target_set \<Rightarrow> target_set \<times> nat option" where
  "find_ts k ts =
     (case map_find k ts of
        None \<Rightarrow> (ts, None)
      | Some i \<Rightarrow>
          let t = ts ! i in
          if ext t \<noteq> kext k
          then (if kext k \<noteq> None then ts[i := t\<lparr>ext := kext k\<rparr>] else ts, Some i)
          else (ts, Some i))"

text \<open>
  \<^verbatim>\<open>insert\<close> looks the key up and, when nothing is found, calls the type's factory and
  stores what it returns; a factory that throws leaves the set as it was.
\<close>

definition insert_ts ::
  "target_type \<Rightarrow> string \<Rightarrow> string \<Rightarrow> string \<Rightarrow> string option \<Rightarrow> target_set \<Rightarrow>
     error + (target_set \<times> nat \<times> bool)" where
  "insert_ts tt d o' n e ts =
     (case find_ts \<lparr>ktype = tt, kdir = d, kout = o', kname = n, kext = e\<rparr> ts of
        (ts1, None) \<Rightarrow>
          (case tt_factory tt of
             None \<Rightarrow> Inl NullCall
           | Some f \<Rightarrow>
               (case call_factory f tt d o' n e of
                  Inl err \<Rightarrow> Inl err
                | Inr pt \<Rightarrow> Inr (ts1 @ [pt], length ts1, True)))
      | (ts1, Some i) \<Rightarrow> Inr (ts1, i, False))"

subsection \<open>Sample targets\<close>

text \<open>
  A header type as a language module declares it, with an extension function, and a
  header target with its path assigned; the same target under the descriptor of
  \<^verbatim>\<open>path_target\<close>, which has no extension function.
\<close>

definition hxx_type :: target_type where
  "hxx_type =
     \<lparr>tt_name = ''hxx'', tt_factory = Some (file_factory_ptr None),
      tt_extension = Some target_extension_null, tt_print = None\<rparr>"

definition hxx_target :: path_target where
  "hxx_target =
     \<lparr>type = hxx_type, dir = ''/tmp/out'', out = [], name = ''foo'', ext = Some ''hxx'',
      action = 0, recipe_m = empty_recipe, raw_state = unknown, dependents = 0,
      mtime_m = 0, path_m = ''/tmp/out/foo.hxx''\<rparr>"


text \<open>
  Sample action comparisons for a target matched for an action with an outer operation:
  an action is \<open>16 * outer + inner\<close>, equality looks at the inner operation only, and an
  action overrides one with another inner operation or with another, non-zero outer one.
\<close>

definition sample_gt :: "nat \<Rightarrow> nat \<Rightarrow> bool" where
  "sample_gt x y \<longleftrightarrow> x mod 16 \<noteq> y mod 16 \<or> (x div 16 \<noteq> y div 16 \<and> y div 16 \<noteq> 0)"

definition sample_eq :: "nat \<Rightarrow> nat \<Rightarrow> bool" where
  "sample_eq x y \<longleftrightarrow> x mod 16 = y mod 16"

definition noop_target :: target where
  "noop_target =
     \<lparr>type = alias_type, dir = ''/tmp/out'', out = [], name = ''foo'', ext = None,
      action = 17, recipe_m = noop_recipe, raw_state = unchanged, dependents = 2\<rparr>"

section \<open>build2/cxx/compile.cxx: the compile rule\<close>

subsection \<open>Timestamps and the dependency database\<close>

text \<open>
  Modelled from the spec: the two timestamp sentinels \<^verbatim>\<open>timestamp_unknown\<close> and
  \<^verbatim>\<open>timestamp_nonexistent\<close>, which the path and timestamp utilities declare outside
  this file. They are distinct and below every time a file can have.
\<close>

definition timestamp_unknown :: timestamp where
  "timestamp_unknown = - 1"

definition timestamp_nonexistent :: timestamp where
  "timestamp_nonexistent = 0"

text \<open>
  Modelled from the spec: \<^verbatim>\<open>depdb\<close>, the line-oriented dependency database, whose class
  is defined outside this file. It has the states read, write and closed and starts in
  read. The file is the list of its lines, a malformed stored line being \<open>None\<close>;
  \<open>dd_pos\<close> is the number of lines passed so far.

  \<^item> \<^verbatim>\<open>expect (line)\<close> compares the line to the next stored one. On a match the database
    stays in read and the answer is \<open>None\<close> (\<^verbatim>\<open>nullptr\<close>). On a mismatch it writes the
    line, discards the tail of the file, goes to write, and answers with a marker for
    the offending prior line. Once in write there is no stored line left to match.
  \<^item> \<^verbatim>\<open>read ()\<close> returns the next line, or \<open>None\<close> if that line is malformed or there
    is none; \<^verbatim>\<open>more ()\<close>, here \<open>dd_more\<close>, says whether there is a next line to read.
  \<^item> \<^verbatim>\<open>touch ()\<close> sets the modification time of the file, and \<^verbatim>\<open>mtime ()\<close> is that time.
\<close>

datatype depdb_state = dd_read | dd_write | dd_closed

record depdb =
  dd_state :: depdb_state
  dd_lines :: "string option list"
  dd_pos :: nat
  dd_mtime :: timestamp

definition depdb_open :: "string option list \<Rightarrow> timestamp \<Rightarrow> depdb" where
  "depdb_open ls mt = \<lparr>dd_state = dd_read, dd_lines = ls, dd_pos = 0, dd_mtime = mt\<rparr>"

definition reading :: "depdb \<Rightarrow> bool" where
  "reading d \<longleftrightarrow> dd_state d = dd_read"

definition writing :: "depdb \<Rightarrow> bool" where
  "writing d \<longleftrightarrow> dd_state d = dd_write"

definition expect :: "string \<Rightarrow> depdb \<Rightarrow> depdb \<times> string option option" where
  "expect line d =
     (if dd_state d = dd_read \<and> dd_pos d < length (dd_lines d) \<and>
         dd_lines d ! dd_pos d = Some line
      then (d\<lparr>dd_pos := dd_pos d + 1\<rparr>, None)
      else (d\<lparr>dd_lines := take (dd_pos d) (dd_lines d) @ [Some line],
               dd_pos := dd_pos d + 1, dd_state := dd_write\<rparr>,
            Some (if dd_pos d < length (dd_lines d) then dd_lines d ! dd_pos d else None)))"

definition dd_more :: "depdb \<Rightarrow> bool" where
  "dd_more d \<longleftrightarrow> dd_state d = dd_read \<and> dd_pos d < length (dd_lines d)"

definition read :: "depdb \<Rightarrow> depdb \<times> string option" where
  "read d =
     (if dd_more d
      then (case dd_lines d ! dd_pos d of
              Some l \<Rightarrow> (d\<lparr>dd_pos := dd_pos d + 1\<rparr>, Some l)
            | None \<Rightarrow> (d, None))
      else (d, None))"

definition touch :: "timestamp \<Rightarrow> depdb \<Rightarrow> depdb" where
  "touch now d = d\<lparr>dd_mtime := now\<rparr>"

subsection \<open>compile::apply: the input fingerprint\<close>

text \<open>
  The part of \<^verbatim>\<open>compile::apply\<close> that runs for \<^verbatim>\<open>perform_update\<close> between opening the
  database and \<^verbatim>\<open>inject_prerequisites\<close>. \<open>checksum\<close> is the value of \<^verbatim>\<open>cxx.checksum\<close>,
  \<open>options\<close> is \<^verbatim>\<open>cs.string ()\<close>, the hash of the options, and \<open>src\<close> is \<^verbatim>\<open>st.path ()\<close>.
  \<^verbatim>\<open>t.mtime ()\<close> is the field \<open>mtime_m\<close>, taken as loaded. The answers of \<^verbatim>\<open>expect\<close> only
  feed the trace.
\<close>

definition apply_depdb ::
  "string \<Rightarrow> string \<Rightarrow> string \<Rightarrow> depdb \<Rightarrow> 'a path_target_scheme \<Rightarrow>
     depdb \<times> 'a path_target_scheme" where
  "apply_depdb checksum options src d t =
     (let d1 = fst (expect ''cxx.compile 1'' d);
          d2 = fst (expect checksum d1);
          d3 = fst (expect options d2);
          d4 = fst (expect src d3)
      in (d4, if writing d4 \<or> dd_mtime d4 > mtime_m t
              then t\<lparr>mtime_m := timestamp_nonexistent\<rparr> else t))"

subsection \<open>Directory paths and the prefix map\<close>

text \<open>
  Paths are POSIX strings. The path operations are those of the path library the file
  uses: \<^verbatim>\<open>absolute\<close>, \<^verbatim>\<open>directory\<close> (the path up to its last separator, without it
  unless it is the root), \<^verbatim>\<open>sub\<close> (is this directory the other one or below it) and
  \<^verbatim>\<open>/\<close> (concatenation with a separator).
\<close>

definition absolute :: "string \<Rightarrow> bool" where
  "absolute f \<longleftrightarrow> f \<noteq> [] \<and> hd f = CHR ''/''"

definition rfind_separator :: "string \<Rightarrow> nat option" where
  "rfind_separator f =
     (if CHR ''/'' \<in> set f
      then Some (length f - 1 - length (takeWhile (\<lambda>c. c \<noteq> CHR ''/'') (rev f)))
      else None)"

definition directory :: "string \<Rightarrow> string" where
  "directory f =
     (case rfind_separator f of
        None \<Rightarrow> []
      | Some p \<Rightarrow> take (if p = 0 then 1 else p) f)"

definition sub :: "string \<Rightarrow> string \<Rightarrow> bool" where
  "sub d p \<longleftrightarrow>
     p = [] \<or>
     (length p \<le> length d \<and> take (length p) d = p \<and>
      (last p = CHR ''/'' \<or> length d = length p \<or> d ! length p = CHR ''/''))"

definition path_join :: "string \<Rightarrow> string \<Rightarrow> string" where
  "path_join d f =
     (if d = [] then f else if last d = CHR ''/'' then d @ f else d @ ''/'' @ f)"

text \<open>
  \<^verbatim>\<open>prefix_map\<close> is \<^verbatim>\<open>dir_path_map<dir_path>\<close>, an ordered \<^verbatim>\<open>std::map\<close> of the path library:
  the entries in ascending key order, where two directories compare as their strings
  do, character by character, once a separator is put at the end of each. So a
  directory comes before everything below it, and \<open>foo-bar\<close> is not taken for a
  sub-directory of \<open>foo\<close>.
\<close>

type_synonym prefix_map = "(string \<times> string) list"

fun string_less :: "string \<Rightarrow> string \<Rightarrow> bool" where
  "string_less [] [] = False"
| "string_less [] (y # ys) = True"
| "string_less (x # xs) [] = False"
| "string_less (x # xs) (y # ys) =
     (if (of_char x :: nat) < of_char y then True
      else if (of_char y :: nat) < of_char x then False
      else string_less xs ys)"

definition dir_less :: "string \<Rightarrow> string \<Rightarrow> bool" where
  "dir_less x y = string_less (x @ ''/'') (y @ ''/'')"

text \<open>
  \<^verbatim>\<open>m.find (p)\<close> (the position of the key equivalent to \<open>p\<close>), \<^verbatim>\<open>m.emplace (p, d)\<close> for
  an absent key, and \<^verbatim>\<open>m.upper_bound (d)\<close> (the position of the first key greater than
  \<open>d\<close>, the length of the list standing for \<^verbatim>\<open>end ()\<close>).
\<close>

fun pm_find :: "string \<Rightarrow> prefix_map \<Rightarrow> nat option" where
  "pm_find p [] = None"
| "pm_find p ((k, v) # m) =
     (if \<not> dir_less k p \<and> \<not> dir_less p k then Some 0
      else (case pm_find p m of None \<Rightarrow> None | Some i \<Rightarrow> Some (Suc i)))"

fun emplace :: "string \<Rightarrow> string \<Rightarrow> prefix_map \<Rightarrow> prefix_map" where
  "emplace p d [] = [(p, d)]"
| "emplace p d ((k, v) # m) =
     (if dir_less p k then (p, d) # (k, v) # m else (k, v) # emplace p d m)"

fun upper_bound :: "prefix_map \<Rightarrow> string \<Rightarrow> nat" where
  "upper_bound [] d = 0"
| "upper_bound ((k, v) # m) d = (if dir_less d k then 0 else Suc (upper_bound m d))"

text \<open>
  What \<^verbatim>\<open>append_prefixes\<close> does with one include directory \<open>d\<close> and its prefix \<open>p\<close>: a
  new key is entered, the directory of a present key is overridden. \<^verbatim>\<open>build_prefix_map\<close>
  does it for the pairs in the order the options give them, those of the prerequisite
  libraries first; extracting the pairs from the option variables is not modelled.
\<close>

definition append_prefix :: "prefix_map \<Rightarrow> string \<times> string \<Rightarrow> prefix_map" where
  "append_prefix m pd =
     (case pm_find (fst pd) m of
        Some j \<Rightarrow> (if snd (m ! j) \<noteq> snd pd then m[j := (fst (m ! j), snd pd)] else m)
      | None \<Rightarrow> emplace (fst pd) (snd pd) m)"

definition build_prefix_map :: "(string \<times> string) list \<Rightarrow> prefix_map" where
  "build_prefix_map pds = foldl append_prefix [] pds"

text \<open>
  The lookup in \<^verbatim>\<open>add\<close>: the entry before \<^verbatim>\<open>upper_bound (d)\<close>, if there is one and \<open>d\<close> is
  a sub-directory of its key; \<open>None\<close> stands for \<^verbatim>\<open>pm.end ()\<close>.
\<close>

definition prefix_lookup :: "prefix_map \<Rightarrow> string \<Rightarrow> (string \<times> string) option" where
  "prefix_lookup m d =
     (if m = [] then None
      else
        let i = upper_bound m d in
        if i = 0 \<or> \<not> sub d (fst (m ! (i - 1))) then None else Some (m ! (i - 1)))"

subsection \<open>inject_prerequisites: update, add and the walk over the cached headers\<close>

text \<open>
  What \<^verbatim>\<open>inject_prerequisites\<close> takes from outside this file: path normalisation and
  realisation, the target that \<^verbatim>\<open>search\<close> finds or inserts for a header path (with the
  path assigned and a rule matched), \<^verbatim>\<open>execute_direct\<close> (the state it returns and the
  target after it), and the directories and prefixes \<^verbatim>\<open>build_prefix_map\<close> goes through.
\<close>

record env =
  normalize :: "string \<Rightarrow> string"
  realize :: "string \<Rightarrow> string"
  header_target :: "string \<Rightarrow> path_target"
  execute_direct :: "path_target \<Rightarrow> target_state \<times> path_target"
  prefixes :: "(string \<times> string) list"

record inject_state =
  dd :: depdb
  pm :: prefix_map
  prerequisite_targets :: "path_target list"
  skip_count :: nat

text \<open>
  The lambda \<^verbatim>\<open>update\<close>; \<^verbatim>\<open>pt.state ()\<close> is \<open>raw_state\<close> and \<^verbatim>\<open>pt.mtime ()\<close> is \<open>mtime_m\<close>.
\<close>

definition update ::
  "(path_target \<Rightarrow> target_state \<times> path_target) \<Rightarrow> path_target \<Rightarrow> timestamp \<Rightarrow>
     bool \<times> path_target" where
  "update exec pt ts =
     (let (upd, pt1) =
            (if raw_state pt \<noteq> unchanged
             then (let os = raw_state pt; (ns, pt') = exec pt
                   in (ns \<noteq> os \<and> ns \<noteq> unchanged, pt'))
             else (False, pt))
      in if upd then (True, pt1)
         else if ts \<noteq> timestamp_unknown
         then (let mt = mtime_m pt1
               in (ts < mt \<or> (ts = mt \<and> raw_state pt1 \<noteq> changed), pt1))
         else (False, pt1))"

text \<open>
  The lambda \<^verbatim>\<open>add\<close>: map a relative (non-existent) header through the prefix map, find
  its target, update it, record it in the database unless it came from there, and add
  it to the prerequisite targets. It returns whether to restart.
\<close>

definition add :: "env \<Rightarrow> string \<Rightarrow> bool \<Rightarrow> inject_state \<Rightarrow> error + (bool \<times> inject_state)" where
  "add e f cache st =
     (case (if \<not> absolute f
            then (let f1 = normalize e f;
                      pm1 = (if pm st = [] then build_prefix_map (prefixes e) else pm st)
                  in case prefix_lookup pm1 (directory f1) of
                       None \<Rightarrow>
                         Inl (Fail ''unable to map presumably auto-generated header'')
                     | Some i \<Rightarrow> Inr (path_join (snd i) f1, pm1))
            else Inr (if \<not> cache then realize e f else f, pm st)) of
        Inl err \<Rightarrow> Inl err
      | Inr (f2, pm2) \<Rightarrow>
          let pt = header_target e f2;
              (restart, pt1) =
                update (execute_direct e) pt
                  (if cache then dd_mtime (dd st) else timestamp_unknown);
              dd1 = (if \<not> cache then fst (expect (path_m pt1) (dd st)) else dd st)
          in Inr (restart,
                  st\<lparr>dd := dd1, pm := pm2,
                     prerequisite_targets := prerequisite_targets st @ [pt1]\<rparr>))"

text \<open>
  The loop \<^verbatim>\<open>while (dd.more ())\<close> over the cached header list; \<open>now\<close> is the time
  \<^verbatim>\<open>dd.touch ()\<close> sets. It returns the flag \<^verbatim>\<open>restart\<close>.
\<close>

function cache_loop :: "env \<Rightarrow> timestamp \<Rightarrow> inject_state \<Rightarrow> error + (bool \<times> inject_state)" where
  "cache_loop e now st =
     (if \<not> dd_more (dd st) then Inr (False, st)
      else
        (case read (dd st) of
           (d1, None) \<Rightarrow> Inr (True, st\<lparr>dd := d1\<rparr>)
         | (d1, Some l) \<Rightarrow>
             (case add e l True (st\<lparr>dd := d1\<rparr>) of
                Inl err \<Rightarrow> Inl err
              | Inr (restart, st1) \<Rightarrow>
                  let st2 = st1\<lparr>skip_count := skip_count st1 + 1\<rparr> in
                  if restart then Inr (True, st2\<lparr>dd := touch now (dd st2)\<rparr>)
                  else cache_loop e now st2)))"
  by pat_completeness auto
termination
proof (relation "measure (\<lambda>(e, now, st). length (dd_lines (dd st)) - dd_pos (dd st))", goal_cases)
  case 1
  show ?case by simp
next
  case (2 e now st x y x2 b xa ya xb)
  from 2 have r: "read (dd st) = (x, Some x2)" and a: "add e x2 True (st\<lparr>dd := x\<rparr>) = Inr (xa, ya)"
    and m: "dd_more (dd st)"
    by simp_all
  from a have "dd ya = x"
    by (auto simp: add_def Let_def split: if_splits option.splits prod.splits)
  moreover from m r have "dd_lines x = dd_lines (dd st) \<and> dd_pos x = dd_pos (dd st) + 1"
    by (auto simp: read_def split: option.splits if_splits)
  moreover from m have "dd_pos (dd st) < length (dd_lines (dd st))"
    by (simp add: dd_more_def)
  ultimately show ?case using 2(6) by simp
qed

subsection \<open>Sample header environment\<close>

definition sample_header :: "string \<Rightarrow> path_target" where
  "sample_header f =
     \<lparr>type = hxx_type, dir = directory f, out = [], name = ''gen'', ext = Some ''hxx'',
      action = 0, recipe_m = noop_recipe, raw_state = unchanged, dependents = 0,
      mtime_m = 10, path_m = f\<rparr>"

definition sample_env :: env where
  "sample_env =
     \<lparr>normalize = (\<lambda>f. f), realize = (\<lambda>f. f), header_target = sample_header,
      execute_direct = (\<lambda>pt. (changed, pt\<lparr>raw_state := changed\<rparr>)),
      prefixes = [(''foo'', ''/tmp/out''), (''foo/bar'', ''/tmp/out'')]\<rparr>"

definition sample_state :: "string option list \<Rightarrow> timestamp \<Rightarrow> inject_state" where
  "sample_state ls mt =
     \<lparr>dd = depdb_open ls mt, pm = [], prerequisite_targets = [], skip_count = 0\<rparr>"

definition sample_env_stale :: env where
  "sample_env_stale =
     sample_env\<lparr>header_target := (\<lambda>f. (sample_header f)\<lparr>raw_state := unknown\<rparr>)\<rparr>"

text \<open>The restart flag of a walk that did not fail.\<close>

definition the_inr :: "error + 'a \<Rightarrow> 'a" where
  "the_inr r = (case r of Inr x \<Rightarrow> x)"

section \<open>build2/test/script/parser.cxx: variable lines of a test script\<close>

text \<open>
  \<^verbatim>\<open>digit\<close> is the character test of the utility library; \<^verbatim>\<open>digits\<close> is the helper of
  this file, true for a non-empty string of digits only.
\<close>

definition digit :: "char \<Rightarrow> bool" where
  "digit c \<longleftrightarrow> (48 :: nat) \<le> of_char c \<and> (of_char c :: nat) \<le> 57"

fun digits_loop :: "string \<Rightarrow> string \<Rightarrow> bool" where
  "digits_loop s [] = (s \<noteq> [])"
| "digits_loop s (c # cs) = (if \<not> digit c then False else digits_loop s cs)"

definition digits :: "string \<Rightarrow> bool" where
  "digits s = digits_loop s s"

text \<open>
  A variable line as \<^verbatim>\<open>parse_variable_line\<close> sees it: the name (the value of the first
  token), the assignment kind (the type of the next token), the rest of the line as
  \<^verbatim>\<open>parse_variable_value\<close> reads it (a failure of the base parser, or the literal words and
  the variable expansions \<open>$name\<close> of the value, an expansion with the flag that it has a
  qualifier), and the type of the token it stops at. A value is a list of names.
\<close>

datatype line_token = tt_assign | tt_prepend | tt_append | tt_newline | tt_other

datatype value_part = literal_word string | expansion bool string

record variable_line =
  vl_name :: string
  vl_kind :: line_token
  vl_value :: "error + value_part list"
  vl_next :: line_token

text \<open>
  Modelled from the spec: the variables of the scope, which the scope and variable
  machinery keeps outside this file. The script has the one scope this file parses in
  (\<^verbatim>\<open>scope_ = script_\<close>); a variable is undefined (\<open>None\<close>), null (\<open>Some None\<close>) or has a
  value. \<^verbatim>\<open>assign\<close> gives the variable's value in this scope, \<^verbatim>\<open>append\<close> the value to
  extend, and the value attributes put the right-hand side in place of, after or before
  it. The sources of the aliases are \<open>test\<close>, \<open>test.options\<close> and \<open>test.arguments\<close>, and
  \<^verbatim>\<open>cmd_var\<close> is the variable \<open>*\<close>.
\<close>

type_synonym scope_vars = "string \<rightharpoonup> string list option"

definition apply_value_attributes ::
  "string list option option \<Rightarrow> string list \<Rightarrow> line_token \<Rightarrow> string list option" where
  "apply_value_attributes lhs rhs kind =
     (let old = (case lhs of Some (Some v) \<Rightarrow> v | _ \<Rightarrow> []) in
      if kind = tt_assign then Some rhs
      else if kind = tt_prepend then Some (rhs @ old)
      else Some (old @ rhs))"

text \<open>
  \<^verbatim>\<open>parser::lookup_variable\<close>, the lookup of an expansion \<open>$name\<close>. It returns the lookup
  (undefined, null or the value) and changes the scope: a null \<open>*\<close> is recalculated from
  its sources and stored, and \<open>$N\<close> is assigned element \<open>N\<close> of \<open>*\<close>, or null, unless a
  value is there and \<open>*\<close> was not recalculated. A lookup as a condition
  (\<^verbatim>\<open>if (lookup l = ...)\<close>) holds for a variable that is defined and not null; the value of
  \<open>test\<close> is a path, of which the string is taken.
\<close>

definition path_string :: "string list \<Rightarrow> string" where
  "path_string v = (case v of [] \<Rightarrow> [] | p # _ \<Rightarrow> p)"

definition lookup_variable ::
  "bool \<Rightarrow> bool \<Rightarrow> string \<Rightarrow> scope_vars \<Rightarrow> error + (string list option option \<times> scope_vars)" where
  "lookup_variable pre_parse qual nm sc =
     (if pre_parse then Inl AssertFail
      else if qual then Inl (Fail ''qualified variable name'')
      else if nm \<noteq> ''*'' \<and> \<not> digits nm then Inr (sc nm, sc)
      else
        (case sc ''*'' of
           None \<Rightarrow> Inl AssertFail
         | Some v \<Rightarrow>
             let recalc = (v = None);
                 s = (case v of
                        None \<Rightarrow>
                          (case sc ''test'' of Some (Some p) \<Rightarrow> [path_string p] | _ \<Rightarrow> []) @
                          (case sc ''test.options'' of Some (Some x) \<Rightarrow> x | _ \<Rightarrow> []) @
                          (case sc ''test.arguments'' of Some (Some x) \<Rightarrow> x | _ \<Rightarrow> [])
                      | Some x \<Rightarrow> x);
                 sc1 = (if recalc then sc(''*'' \<mapsto> Some s) else sc)
             in if nm = ''*'' then Inr (sc1 ''*'', sc1)
                else if \<not> recalc \<and> sc1 nm \<noteq> None then Inr (sc1 nm, sc1)
                else
                  (case stoul nm of
                     None \<Rightarrow> Inl (Fail ''invalid $* index'')
                   | Some (i, n) \<Rightarrow>
                       let nv = (if i < length s then Some [s ! i] else None)
                       in Inr (Some nv, sc1(nm \<mapsto> nv)))))"

text \<open>
  Modelled from the spec: \<^verbatim>\<open>parse_variable_value\<close> of the base parser, declared outside
  this file. It reads the value up to the end of the line; while pre-parsing nothing is
  evaluated, and when the line is executed every expansion is looked up with
  \<^verbatim>\<open>lookup_variable\<close>, from left to right, and stands for the names of the value it finds
  (none for an undefined or null variable).
\<close>

fun expand :: "value_part list \<Rightarrow> scope_vars \<Rightarrow> error + (string list \<times> scope_vars)" where
  "expand [] sc = Inr ([], sc)"
| "expand (literal_word w # ps) sc =
     (case expand ps sc of
        Inl err \<Rightarrow> Inl err
      | Inr (ws, sc1) \<Rightarrow> Inr (w # ws, sc1))"
| "expand (expansion q n # ps) sc =
     (case lookup_variable False q n sc of
        Inl err \<Rightarrow> Inl err
      | Inr (l, sc1) \<Rightarrow>
          (case expand ps sc1 of
             Inl err \<Rightarrow> Inl err
           | Inr (ws, sc2) \<Rightarrow> Inr ((case l of Some (Some v) \<Rightarrow> v | _ \<Rightarrow> []) @ ws, sc2)))"

definition parse_variable_value ::
  "bool \<Rightarrow> value_part list \<Rightarrow> scope_vars \<Rightarrow> error + (string list \<times> scope_vars)" where
  "parse_variable_value pre_parse ps sc = (if pre_parse then Inr ([], sc) else expand ps sc)"

definition parse_variable_line :: "bool \<Rightarrow> variable_line \<Rightarrow> scope_vars \<Rightarrow> error + scope_vars" where
  "parse_variable_line pre_parse ln sc =
     (let name = vl_name ln in
      if pre_parse \<and> (name = ''*'' \<or> name = ''~'' \<or> digits name)
      then Inl (Fail ''attempt to set'')
      else
        (case vl_value ln of
           Inl err \<Rightarrow> Inl err
         | Inr ps \<Rightarrow>
             (case parse_variable_value pre_parse ps sc of
                Inl err \<Rightarrow> Inl err
              | Inr (rhs, sc1) \<Rightarrow>
                  if vl_next ln \<noteq> tt_newline then Inl (Fail ''unexpected'')
                  else if \<not> pre_parse
                  then (let sc2 = sc1(name \<mapsto>
                                    apply_value_attributes (sc1 name) rhs (vl_kind ln))
                        in Inr (if name = ''test'' \<or> name = ''test.options'' \<or>
                                   name = ''test.arguments''
                                then sc2(''*'' \<mapsto> None) else sc2))
                  else Inr sc1)))"

text \<open>
  \<^verbatim>\<open>pre_parse_script\<close> and \<^verbatim>\<open>parse_script\<close> restricted to variable lines: the first goes
  through all lines with \<^verbatim>\<open>pre_parse_\<close> set, the second through the lines the first has
  saved, with \<^verbatim>\<open>pre_parse_\<close> clear. A script is pre-parsed before it is parsed.
\<close>

fun parse_lines :: "bool \<Rightarrow> variable_line list \<Rightarrow> scope_vars \<Rightarrow> error + scope_vars" where
  "parse_lines pre_parse [] sc = Inr sc"
| "parse_lines pre_parse (ln # lns) sc =
     (case parse_variable_line pre_parse ln sc of
        Inl err \<Rightarrow> Inl err
      | Inr sc1 \<Rightarrow> parse_lines pre_parse lns sc1)"

definition run_script :: "variable_line list \<Rightarrow> scope_vars \<Rightarrow> error + scope_vars" where
  "run_script lns sc =
     (case parse_lines True lns sc of
        Inl err \<Rightarrow> Inl err
      | Inr _ \<Rightarrow> parse_lines False lns sc)"

text \<open>
  The special aliases as the claim names them: \<open>*\<close>, \<open>~\<close> and the non-empty strings of
  digits.
\<close>

definition special_alias :: "string \<Rightarrow> bool" where
  "special_alias n \<longleftrightarrow> n = ''*'' \<or> n = ''~'' \<or> (n \<noteq> [] \<and> (\<forall>c \<in> set n. digit c))"

text \<open>
  The script \<open>test = foo\<close>, \<open>x = $0\<close>, run in the root scope of a script, where \<open>*\<close> is
  set and null.
\<close>

definition sample_lines :: "variable_line list" where
  "sample_lines =
     [\<lparr>vl_name = ''test'', vl_kind = tt_assign, vl_value = Inr [literal_word ''foo''],
       vl_next = tt_newline\<rparr>,
      \<lparr>vl_name = ''x'', vl_kind = tt_assign, vl_value = Inr [expansion False ''0''],
       vl_next = tt_newline\<rparr>]"

definition root_scope :: scope_vars where
  "root_scope = [''*'' \<mapsto> None]"

section \<open>libbuild2/script/parser.cxx: command expressions\<close>

subsection \<open>Tokens, redirects, commands\<close>

text \<open>
  The token types the command-line parser distinguishes; \<open>in_l\<close> to \<open>out_ggg\<close> are the
  redirect aliases, which \<^verbatim>\<open>ra.resolve\<close> replaces before a redirect is parsed. The value of
  a redirect token is its modifiers.
\<close>

datatype token_type =
    newline | word | dollar | lparen | pipe | log_or | log_and | clean
  | in_pass | in_null | in_str | in_doc | in_file
  | out_pass | out_null | out_trace | out_merge | out_str | out_doc
  | out_file_cmp | out_file_ovr | out_file_app
  | in_l | in_ll | in_lll | out_g | out_gg | out_ggg
  | other_token

datatype quote_type = unquoted | single_q | double_q | mixed

record token =
  ttype :: token_type
  tvalue :: string
  separated :: bool
  qtype :: quote_type
  qcomp :: bool

datatype redirect_type =
    rt_none | rt_pass | rt_null | rt_trace | rt_merge
  | rt_here_str_literal | rt_here_str_regex
  | rt_here_doc_literal | rt_here_doc_regex | rt_here_doc_ref
  | rt_file

datatype redirect_fmode = fm_compare | fm_overwrite | fm_append

record regex_lines =
  re_intro :: char
  re_flags :: string
  re_lines :: "string list"

text \<open>
  A \<^verbatim>\<open>here_redirect\<close> names a redirect by its place: the index of the expression term,
  the index of the command in the term's pipe, and the file descriptor.
\<close>

record here_redirect =
  hr_expr :: nat
  hr_pipe :: nat
  hr_fd :: int

text \<open>
  A \<^verbatim>\<open>redirect\<close>. A redirect of type \<^verbatim>\<open>here_doc_ref\<close> holds a reference to the redirect
  that owns the here-document; the reference is the place of that redirect.
\<close>

record redirect =
  rtype :: redirect_type
  rfd :: int
  rstr :: string
  rregex :: regex_lines
  rfile_path :: string
  rfile_mode :: redirect_fmode
  rend :: string
  rend_line :: nat
  rend_column :: nat
  rtoken :: token
  rref :: "here_redirect option"

definition empty_token :: token where
  "empty_token =
     \<lparr>ttype = other_token, tvalue = [], separated = False, qtype = unquoted, qcomp = False\<rparr>"

definition new_redirect :: "redirect_type \<Rightarrow> redirect" where
  "new_redirect rt =
     \<lparr>rtype = rt, rfd = 0, rstr = [],
      rregex = \<lparr>re_intro = CHR 0x00, re_flags = [], re_lines = []\<rparr>,
      rfile_path = [], rfile_mode = fm_compare, rend = [], rend_line = 0, rend_column = 0,
      rtoken = empty_token, rref = None\<rparr>"

record command =
  program :: string
  arguments :: "string list"
  c_in :: "redirect option"
  c_out :: "redirect option"
  c_err :: "redirect option"

definition new_command :: command where
  "new_command = \<lparr>program = [], arguments = [], c_in = None, c_out = None, c_err = None\<rparr>"

datatype expr_operator = op_log_or | op_log_and

record expr_term =
  et_op :: expr_operator
  et_pipe :: "command list"

type_synonym command_expr = "expr_term list"

record here_doc =
  redirects :: "here_redirect list"
  end_marker :: string
  literal :: bool
  modifiers :: string
  regex :: char
  regex_flags :: string

datatype pending =
    p_none | p_program | p_in_string | p_in_document | p_in_file
  | p_out_merge | p_out_string | p_out_str_regex | p_out_document | p_out_doc_regex | p_out_file
  | p_err_merge | p_err_string | p_err_str_regex | p_err_document | p_err_doc_regex | p_err_file
  | p_clean

text \<open>
  The locals of \<^verbatim>\<open>parse_command_expr\<close> that its lambdas capture: the expression so far,
  the command being assembled, the pending position, the modifiers and the expected
  here-documents.
\<close>

record pstate =
  ps_expr :: command_expr
  ps_c :: command
  ps_p :: pending
  ps_mod :: string
  ps_hd :: "here_doc list"

definition start_pstate :: pstate where
  "start_pstate =
     \<lparr>ps_expr = [\<lparr>et_op = op_log_or, et_pipe = []\<rparr>], ps_c = new_command,
      ps_p = p_program, ps_mod = [], ps_hd = []\<rparr>"

subsection \<open>check_command and parse_redirect\<close>

definition check_command :: "command \<Rightarrow> bool \<Rightarrow> error + unit" where
  "check_command c last_cmd =
     (if (case c_out c of Some r \<Rightarrow> rtype r = rt_merge | None \<Rightarrow> False) \<and>
         (case c_err c of Some r \<Rightarrow> rtype r = rt_merge | None \<Rightarrow> False)
      then Inl (Fail ''stdout and stderr redirected to each other'')
      else if \<not> last_cmd \<and> c_out c \<noteq> None
      then Inl (Fail ''stdout is both redirected and piped'')
      else Inr ())"

definition in_family :: "token_type \<Rightarrow> bool" where
  "in_family tt \<longleftrightarrow> tt = in_pass \<or> tt = in_null \<or> tt = in_str \<or> tt = in_doc \<or> tt = in_file"

definition out_family :: "token_type \<Rightarrow> bool" where
  "out_family tt \<longleftrightarrow>
     tt = out_pass \<or> tt = out_null \<or> tt = out_trace \<or> tt = out_merge \<or> tt = out_str \<or>
     tt = out_doc \<or> tt = out_file_cmp \<or> tt = out_file_ovr \<or> tt = out_file_app"

text \<open>
  The first part of the lambda \<^verbatim>\<open>parse_redirect\<close>: the two assertions, the explicit file
  descriptor (the last argument, if the redirect token is not separated from it), and
  its validation and default by operator family. It returns the file descriptor and
  the command without the descriptor argument.
\<close>

definition redirect_fd :: "token \<Rightarrow> token_type \<Rightarrow> pstate \<Rightarrow> error + (nat \<times> command)" where
  "redirect_fd t tt st =
     (if tt = in_l \<or> tt = in_ll \<or> tt = in_lll \<or> tt = out_g \<or> tt = out_gg \<or> tt = out_ggg
      then Inl AssertFail
      else if \<not> (ps_p st = p_none \<and> ps_mod st = []) then Inl AssertFail
      else
        (case (if \<not> separated t
               then (if arguments (ps_c st) = []
                     then Inl (Fail ''missing redirect file descriptor'')
                     else
                       (let s = last (arguments (ps_c st)) in
                        case stoul s of
                          None \<Rightarrow> Inl (Fail ''invalid redirect file descriptor'')
                        | Some (fd, n) \<Rightarrow>
                            if n \<noteq> length s \<or> fd > 2
                            then Inl (Fail ''invalid redirect file descriptor'')
                            else Inr (fd, (ps_c st)\<lparr>arguments := butlast (arguments (ps_c st))\<rparr>)))
               else Inr (3, ps_c st)) of
           Inl err \<Rightarrow> Inl err
         | Inr (fd0, c1) \<Rightarrow>
             if in_family tt
             then (let fd = (if fd0 = 3 then 0 else fd0) in
                   if fd \<noteq> 0 then Inl (Fail ''invalid in redirect file descriptor'')
                   else if ps_expr st = [] then Inl OutOfRange
                   else if et_pipe (last (ps_expr st)) \<noteq> []
                   then Inl (Fail ''stdin is both piped and redirected'')
                   else Inr (fd, c1))
             else if out_family tt
             then (let fd = (if fd0 = 3 then 1 else fd0) in
                   if fd = 0 then Inl (Fail ''invalid out redirect file descriptor'')
                   else Inr (fd, c1))
             else Inr (fd0, c1)))"

text \<open>The redirect type a token type stands for, with the assertion on regex input.\<close>

definition redirect_kind :: "token_type \<Rightarrow> string \<Rightarrow> error + redirect_type" where
  "redirect_kind tt md =
     (let re = (CHR ''~'' \<in> set md) in
      if tt = in_pass \<or> tt = out_pass then Inr rt_pass
      else if tt = in_null \<or> tt = out_null then Inr rt_null
      else if tt = out_trace then Inr rt_trace
      else if tt = out_merge then Inr rt_merge
      else if tt = in_str \<or> tt = out_str
      then (if \<not> (tt = out_str \<or> \<not> re) then Inl AssertFail
            else Inr (if re then rt_here_str_regex else rt_here_str_literal))
      else if tt = in_doc \<or> tt = out_doc
      then (if \<not> (tt = out_doc \<or> \<not> re) then Inl AssertFail
            else Inr (if re then rt_here_doc_regex else rt_here_doc_literal))
      else if tt = in_file \<or> tt = out_file_cmp \<or> tt = out_file_ovr \<or> tt = out_file_app
      then Inr rt_file
      else Inr rt_none)"

text \<open>The pending position a redirect of a type on a descriptor asks for.\<close>

definition redirect_pending :: "redirect_type \<Rightarrow> nat \<Rightarrow> pending \<Rightarrow> error + pending" where
  "redirect_pending rt fd p0 =
     (if rt = rt_none then Inl AssertFail
      else if rt = rt_pass \<or> rt = rt_null \<or> rt = rt_trace then Inr p0
      else if rt = rt_merge
      then (if fd = 0 then Inl AssertFail
            else if fd = 1 then Inr p_out_merge else if fd = 2 then Inr p_err_merge else Inr p0)
      else if rt = rt_here_str_literal
      then (if fd = 0 then Inr p_in_string
            else if fd = 1 then Inr p_out_string else if fd = 2 then Inr p_err_string else Inr p0)
      else if rt = rt_here_str_regex
      then (if fd = 0 then Inl AssertFail
            else if fd = 1 then Inr p_out_str_regex
            else if fd = 2 then Inr p_err_str_regex else Inr p0)
      else if rt = rt_here_doc_literal
      then (if fd = 0 then Inr p_in_document
            else if fd = 1 then Inr p_out_document
            else if fd = 2 then Inr p_err_document else Inr p0)
      else if rt = rt_here_doc_regex
      then (if fd = 0 then Inl AssertFail
            else if fd = 1 then Inr p_out_doc_regex
            else if fd = 2 then Inr p_err_doc_regex else Inr p0)
      else if rt = rt_file
      then (if fd = 0 then Inr p_in_file
            else if fd = 1 then Inr p_out_file else if fd = 2 then Inr p_err_file else Inr p0)
      else Inl AssertFail)"

definition get_redirect :: "command \<Rightarrow> int \<Rightarrow> redirect option" where
  "get_redirect c fd = (if fd = 0 then c_in c else if fd = 1 then c_out c else c_err c)"

definition set_redirect :: "command \<Rightarrow> int \<Rightarrow> redirect option \<Rightarrow> command" where
  "set_redirect c fd r =
     (if fd = 0 then c\<lparr>c_in := r\<rparr> else if fd = 1 then c\<lparr>c_out := r\<rparr> else c\<lparr>c_err := r\<rparr>)"

text \<open>
  Overriding a here-document redirect: the first here-document that refers to the
  place loses that reference.
\<close>

fun remove_reference :: "here_redirect \<Rightarrow> here_doc list \<Rightarrow> here_doc list" where
  "remove_reference rd [] = []"
| "remove_reference rd (d # ds) =
     (if rd \<in> set (redirects d) then d\<lparr>redirects := remove1 rd (redirects d)\<rparr> # ds
      else d # remove_reference rd ds)"

definition parse_redirect :: "bool \<Rightarrow> token \<Rightarrow> token_type \<Rightarrow> pstate \<Rightarrow> error + pstate" where
  "parse_redirect pre_parse t tt st =
     (case redirect_fd t tt st of
        Inl err \<Rightarrow> Inl err
      | Inr (fd, c1) \<Rightarrow>
          (case redirect_kind tt (tvalue t) of
             Inl err \<Rightarrow> Inl err
           | Inr rt \<Rightarrow>
               (case redirect_pending rt fd (ps_p st) of
                  Inl err \<Rightarrow> Inl err
                | Inr p1 \<Rightarrow>
                    let overriden = map_option rtype (get_redirect c1 (int fd));
                        r = (new_redirect rt)
                              \<lparr>rtoken := t,
                               rfile_mode :=
                                 (if rt \<noteq> rt_file then fm_compare
                                  else if tt = out_file_ovr then fm_overwrite
                                  else if tt = out_file_app then fm_append
                                  else fm_compare)\<rparr>;
                        hd1 = (if \<not> pre_parse \<and>
                                  (overriden = Some rt_here_doc_literal \<or>
                                   overriden = Some rt_here_doc_regex)
                               then remove_reference
                                      \<lparr>hr_expr = length (ps_expr st) - 1,
                                       hr_pipe = length (et_pipe (last (ps_expr st))),
                                       hr_fd = int fd\<rparr> (ps_hd st)
                               else ps_hd st)
                    in Inr (st\<lparr>ps_c := set_redirect c1 (int fd) (Some r), ps_p := p1,
                               ps_mod := tvalue t, ps_hd := hd1\<rparr>))))"

subsection \<open>Here-documents: end markers, sharing and bodies\<close>

text \<open>
  \<^verbatim>\<open>s.find (c, pos)\<close> of the standard string, and \<^verbatim>\<open>parse_regex\<close> called without an end
  position. Reading \<^verbatim>\<open>s[p]\<close> at the end of the string gives the null character.
\<close>

definition find_from :: "char \<Rightarrow> nat \<Rightarrow> string \<Rightarrow> nat option" where
  "find_from c pos s =
     (if c \<in> set (drop pos s)
      then Some (pos + length (takeWhile (\<lambda>x. x \<noteq> c) (drop pos s)))
      else None)"

record regex_parts =
  rp_value :: string
  rp_intro :: char
  rp_flags :: string

definition empty_regex_parts :: regex_parts where
  "empty_regex_parts = \<lparr>rp_value = [], rp_intro = CHR 0x00, rp_flags = []\<rparr>"

definition parse_regex :: "string \<Rightarrow> error + regex_parts" where
  "parse_regex s =
     (if s = [] then Inl (Fail ''no introducer character in'')
      else
        (case find_from (hd s) 1 s of
           None \<Rightarrow> Inl (Fail ''no closing introducer character in'')
         | Some p \<Rightarrow>
             let rn = p - 1 in
             if rn = 0 then Inl (Fail ''is empty'')
             else
               let fp = p + 1;
                   fl = takeWhile (\<lambda>c. c = CHR ''d'' \<or> c = CHR ''i'') (drop fp s);
                   pe = fp + length fl
               in if pe < length s \<and> s ! pe \<noteq> CHR 0x00
                  then Inl (Fail ''junk at the end of'')
                  else Inr \<lparr>rp_value = take rn (drop 1 s), rp_intro = hd s, rp_flags = fl\<rparr>))"

definition check_regex_mod :: "string \<Rightarrow> string \<Rightarrow> error + unit" where
  "check_regex_mod md re =
     (if CHR ''/'' \<in> set md \<and> re \<noteq> [] \<and> hd re = CHR ''/''
      then Inl (Fail ''portable path modifier and / introducer in'')
      else Inr ())"

text \<open>
  The loop over the expected here-documents during pre-parsing: the first one with the
  same end marker is shared if the four checks pass; without one, a new here-document
  is expected. \<open>re\<close> says whether the redirect is a regex one.
\<close>

fun find_doc :: "string \<Rightarrow> here_doc list \<Rightarrow> here_doc option" where
  "find_doc e [] = None"
| "find_doc e (d # ds) = (if end_marker d = e then Some d else find_doc e ds)"

definition share_here_doc ::
  "string \<Rightarrow> bool \<Rightarrow> string \<Rightarrow> bool \<Rightarrow> regex_parts \<Rightarrow> here_doc list \<Rightarrow> error + here_doc list" where
  "share_here_doc e lit md re r hds =
     (case find_doc e hds of
        Some d \<Rightarrow>
          if \<not> (modifiers d = md) then Inl (Fail ''different modifiers'')
          else if \<not> (literal d = lit) then Inl (Fail ''different quoting'')
          else if re \<and> \<not> (regex d = rp_intro r) then Inl (Fail ''different introducers'')
          else if re \<and> \<not> (regex_flags d = rp_flags r) then Inl (Fail ''different global flags'')
          else Inr hds
      | None \<Rightarrow>
          Inr (hds @ [\<lparr>redirects = [], end_marker = e, literal = lit, modifiers = md,
                       regex = rp_intro r, regex_flags = rp_flags r\<rparr>]))"

text \<open>
  The pre-parse handling of a here-document redirect in \<^verbatim>\<open>parse_command_expr\<close>: \<open>t\<close> is
  the redirect token, \<open>tn\<close> the token after it (the end marker) and \<open>pk\<close> the token peeked
  after that.
\<close>

definition pre_parse_doc :: "token \<Rightarrow> token \<Rightarrow> token \<Rightarrow> pstate \<Rightarrow> error + pstate" where
  "pre_parse_doc t tn pk st =
     (let md = tvalue t; re = (CHR ''~'' \<in> set md) in
      if ttype tn \<noteq> word \<or> tvalue tn = [] then Inl (Fail ''expected'')
      else if \<not> separated pk \<and> (ttype pk = dollar \<or> ttype pk = lparen)
      then Inl (Fail ''must be literal'')
      else if qtype tn = mixed \<or> ((qtype tn = single_q \<or> qtype tn = double_q) \<and> \<not> qcomp tn)
      then Inl (Fail ''partially-quoted'')
      else
        let qt = (if qtype tn = unquoted then single_q else qtype tn) in
        (case (if re
               then (case check_regex_mod md (tvalue tn) of
                       Inl err \<Rightarrow> Inl err
                     | Inr _ \<Rightarrow>
                         (case parse_regex (tvalue tn) of
                            Inl err \<Rightarrow> Inl err
                          | Inr r \<Rightarrow> Inr (r, rp_value r)))
               else Inr (empty_regex_parts, tvalue tn)) of
           Inl err \<Rightarrow> Inl err
         | Inr (r, e) \<Rightarrow>
             (case share_here_doc e (qt = single_q) md re r (ps_hd st) of
                Inl err \<Rightarrow> Inl err
              | Inr hds \<Rightarrow> Inr (st\<lparr>ps_mod := md, ps_hd := hds\<rparr>))))"
















subsection \<open>Sample tokens and parser state\<close>

definition sample_token :: "token_type \<Rightarrow> bool \<Rightarrow> token" where
  "sample_token tt sep =
     \<lparr>ttype = tt, tvalue = [], separated = sep, qtype = unquoted, qcomp = False\<rparr>"

definition sample_pstate :: pstate where
  "sample_pstate =
     start_pstate\<lparr>ps_p := p_none, ps_c := new_command\<lparr>arguments := [''a'', ''3'']\<rparr>\<rparr>"

text \<open>
  The command \<open>cat -18446744073709551615>out\<close> when the redirect token is met: the word
  before the token is the last argument.
\<close>

definition wrapped_pstate :: pstate where
  "wrapped_pstate =
     start_pstate\<lparr>ps_p := p_none,
                  ps_c := new_command\<lparr>program := ''cat'',
                                      arguments := [''-18446744073709551615'']\<rparr>\<rparr>"

text \<open>
  The command \<open>cat >>EOO 2>>EOO\<close> when its line is executed: the two redirect tokens, the
  end marker, the expression with both redirects in place, the here-document that
  refers to both, and the body read for it.
\<close>

definition eoo_out :: token where
  "eoo_out = \<lparr>ttype = out_doc, tvalue = [], separated = True, qtype = unquoted, qcomp = False\<rparr>"

definition eoo_err :: token where
  "eoo_err = \<lparr>ttype = out_doc, tvalue = [], separated = False, qtype = unquoted, qcomp = False\<rparr>"

definition eoo_word :: token where
  "eoo_word = \<lparr>ttype = word, tvalue = ''EOO'', separated = True, qtype = unquoted, qcomp = False\<rparr>"






definition eoo_doc :: here_doc where
  "eoo_doc =
     \<lparr>redirects = [\<lparr>hr_expr = 0, hr_pipe = 0, hr_fd = 1\<rparr>, \<lparr>hr_expr = 0, hr_pipe = 0, hr_fd = 2\<rparr>],
      end_marker = ''EOO'', literal = True, modifiers = [], regex = CHR 0x00, regex_flags = []\<rparr>"


section \<open>libbuild2/script/parser.cxx: executing the lines of a script\<close>

datatype line_type =
  var | cmd | cmd_if | cmd_ifn | cmd_elif | cmd_elifn | cmd_else | cmd_end

text \<open>
  A line is its type and its saved tokens, which only the callbacks look at; \<open>l_id\<close>
  stands for them.
\<close>

record line =
  ltype :: line_type
  l_id :: nat

text \<open>
  The three callbacks work on the state \<open>'s\<close> of the script being run. Each returns, or
  throws \<^verbatim>\<open>exit\<close> with a status (true for success), or throws \<^verbatim>\<open>failed\<close>.
\<close>

datatype ('a, 's) outcome = Return 'a | Exit_thrown bool 's | Failed_thrown

record 's callbacks =
  exec_set :: "line \<Rightarrow> 's \<Rightarrow> ('s, 's) outcome"
  exec_cmd :: "line \<Rightarrow> nat \<Rightarrow> bool \<Rightarrow> 's \<Rightarrow> ('s, 's) outcome"
  exec_if :: "line \<Rightarrow> nat \<Rightarrow> 's \<Rightarrow> (bool \<times> 's, 's) outcome"

text \<open>
  \<^verbatim>\<open>exec_lines\<close> returns a flag and leaves the line index \<^verbatim>\<open>li\<close>, passed by reference, at
  its new value; or it throws \<^verbatim>\<open>failed\<close>; or an assertion fails.
\<close>

datatype 's exec_result = Returned bool nat 's | Threw_failed | Assert_failed

text \<open>
  The lambda \<^verbatim>\<open>next\<close>, from the line after \<open>j\<close>: \<open>lts\<close> are the types of the lines from
  position \<open>j\<close> up to the end \<open>e\<close>, \<open>n\<close> is the nesting depth. It returns the position
  found and the line index, or \<open>None\<close> when the end is missing (an assertion fails).
\<close>

fun next_scan ::
  "bool \<Rightarrow> bool \<Rightarrow> line_type list \<Rightarrow> nat \<Rightarrow> nat \<Rightarrow> nat \<Rightarrow> (nat \<times> nat) option" where
  "next_scan to_end skip [] j n li = None"
| "next_scan to_end skip (lt # lts) j n li =
     (let n1 = (if lt = cmd_if \<or> lt = cmd_ifn then n + 1 else n) in
      if n1 = 0 \<and>
         (lt = cmd_end \<or> (\<not> to_end \<and> (lt = cmd_elif \<or> lt = cmd_elifn \<or> lt = cmd_else)))
      then Some (j, li)
      else
        let n2 = (if lt = cmd_end then n1 - 1 else n1);
            li1 = (if skip \<and> (lt = cmd \<or> lt = cmd_if \<or> lt = cmd_ifn \<or> lt = cmd_elif \<or>
                               lt = cmd_elifn)
                   then li + 1 else li)
        in next_scan to_end skip lts (j + 1) n2 li1)"

definition next_line ::
  "line list \<Rightarrow> nat \<Rightarrow> nat \<Rightarrow> bool \<Rightarrow> bool \<Rightarrow> nat \<Rightarrow> (nat \<times> nat) option" where
  "next_line ls e j to_end skip li =
     next_scan to_end skip (map ltype (drop (j + 1) (take e ls))) (j + 1) 0 li"

text \<open>
  The condition of an if-else line: \<^verbatim>\<open>exec_if\<close> with the line index, which is then
  incremented, negated for \<^verbatim>\<open>if!\<close> and \<^verbatim>\<open>elif!\<close>; \<^verbatim>\<open>else\<close> is always taken.
\<close>

definition take_branch ::
  "'s callbacks \<Rightarrow> line \<Rightarrow> nat \<Rightarrow> 's \<Rightarrow> (bool \<times> nat \<times> 's, 's) outcome" where
  "take_branch cb ln li s =
     (if ltype ln \<noteq> cmd_else
      then (case exec_if cb ln li s of
              Return r \<Rightarrow>
                Return (if ltype ln = cmd_ifn \<or> ltype ln = cmd_elifn then \<not> fst r else fst r,
                        li + 1, snd r)
            | Exit_thrown ok s1 \<Rightarrow> Exit_thrown ok s1
            | Failed_thrown \<Rightarrow> Failed_thrown)
      else Return (True, li, s))"

text \<open>
  \<^verbatim>\<open>exec_lines (i, e, ...)\<close> over the lines \<open>ls\<close>, the iterators being positions in them.
\<close>

function exec_lines ::
  "'s callbacks \<Rightarrow> line list \<Rightarrow> nat \<Rightarrow> nat \<Rightarrow> nat \<Rightarrow> 's \<Rightarrow> 's exec_result" where
  "exec_lines cb ls i e li s =
     (if e \<le> i then Returned True li s
      else if ltype (ls ! i) = var
      then (case exec_set cb (ls ! i) s of
              Return s1 \<Rightarrow> exec_lines cb ls (i + 1) e li s1
            | Exit_thrown ok s1 \<Rightarrow> if ok then Returned False li s1 else Threw_failed
            | Failed_thrown \<Rightarrow> Threw_failed)
      else if ltype (ls ! i) = cmd
      then (case exec_cmd cb (ls ! i) li
                   (li = 1 \<and> list_all (\<lambda>l. ltype l = var) (drop (i + 1) (take e ls))) s of
              Return s1 \<Rightarrow> exec_lines cb ls (i + 1) e (li + 1) s1
            | Exit_thrown ok s1 \<Rightarrow> if ok then Returned False (li + 1) s1 else Threw_failed
            | Failed_thrown \<Rightarrow> Threw_failed)
      else if ltype (ls ! i) = cmd_end then Assert_failed
      else
        (case take_branch cb (ls ! i) li s of
           Exit_thrown ok s1 \<Rightarrow> if ok then Returned False (li + 1) s1 else Threw_failed
         | Failed_thrown \<Rightarrow> Threw_failed
         | Return (tk, li1, s1) \<Rightarrow>
             if tk
             then (case next_line ls e i False False li1 of
                     None \<Rightarrow> Assert_failed
                   | Some (j, li') \<Rightarrow>
                       (case exec_lines cb ls (i + 1) j li1 s1 of
                          Returned ok li2 s2 \<Rightarrow>
                            if \<not> ok then Returned False li2 s2
                            else if ltype (ls ! j) = cmd_end
                            then exec_lines cb ls (j + 1) e li2 s2
                            else (case next_line ls e j True True li2 of
                                    None \<Rightarrow> Assert_failed
                                  | Some (j2, li3) \<Rightarrow> exec_lines cb ls (j2 + 1) e li3 s2)
                        | Threw_failed \<Rightarrow> Threw_failed
                        | Assert_failed \<Rightarrow> Assert_failed))
             else (case next_line ls e i False True li1 of
                     None \<Rightarrow> Assert_failed
                   | Some (j, li2) \<Rightarrow>
                       if ltype (ls ! j) \<noteq> cmd_end then exec_lines cb ls j e li2 s1
                       else exec_lines cb ls (j + 1) e li2 s1)))"
  by pat_completeness auto
termination
proof -
  have scan: "next_scan to_end skip lts j n li = Some (j', li') \<longrightarrow> j \<le> j' \<and> j' < j + length lts"
    for to_end skip lts j n li j' li'
  proof (induction lts arbitrary: j n li)
    case Nil
    show ?case by simp
  next
    case (Cons lt lts)
    show ?case
    proof
      assume a: "next_scan to_end skip (lt # lts) j n li = Some (j', li')"
      show "j \<le> j' \<and> j' < j + length (lt # lts)"
      proof (cases "(if lt = cmd_if \<or> lt = cmd_ifn then n + 1 else n) = 0 \<and>
         (lt = cmd_end \<or> (\<not> to_end \<and> (lt = cmd_elif \<or> lt = cmd_elifn \<or> lt = cmd_else)))")
        case True
        with a have "j' = j" by (simp add: Let_def)
        then show ?thesis by simp
      next
        case False
        with a obtain n2 li1 where "next_scan to_end skip lts (j + 1) n2 li1 = Some (j', li')"
          by (simp add: Let_def)
        with Cons.IH[of "j + 1" n2 li1] show ?thesis by simp
      qed
    qed
  qed
  have nl: "next_line ls e j to_end skip li = Some (j', li') \<Longrightarrow> j < j' \<and> j' < e"
    for ls e j to_end skip li j' li'
  proof -
    assume a: "next_line ls e j to_end skip li = Some (j', li')"
    from a scan[of to_end skip "map ltype (drop (j + 1) (take e ls))" "j + 1" 0 li j' li']
    have b: "j + 1 \<le> j'" "j' < j + 1 + length (drop (j + 1) (take e ls))"
      by (simp_all add: next_line_def)
    have "length (drop (j + 1) (take e ls)) \<le> e - (j + 1)" by simp
    with b show "j < j' \<and> j' < e" by simp
  qed
  show ?thesis
  proof (relation "measure (\<lambda>(cb, ls, i, e, li, s). e - i)", goal_cases)
    case 1
    show ?case by simp
  next
    case (2 cb ls i e li s x1)
    then show ?case by simp
  next
    case (3 cb ls i e li s x1)
    then show ?case by simp
  next
    case (4 cb ls i e li s x1 x y xa ya x2 xb yb)
    from 4 have "next_line ls e i False False xa = Some (xb, yb)" by simp
    from nl[OF this] 4(1) show ?case by auto
  next
    case (5 cb ls i e li s x1 x y xa ya x2 xb yb x11 x12 x13)
    from 5 have "next_line ls e i False False xa = Some (xb, yb)" by simp
    from nl[OF this] 5(1) show ?case by auto
  next
    case (6 cb ls i e li s x1 x y xa ya x2 xb yb x11 x12 x13 x2a xc yc)
    from 6 have a: "next_line ls e i False False xa = Some (xb, yb)"
      and b: "next_line ls e xb True True x12 = Some (xc, yc)" by simp_all
    from nl[OF a] nl[OF b] 6(1) show ?case by auto
  next
    case (7 cb ls i e li s x1 x y xa ya x2 xb yb)
    from 7 have "next_line ls e i False True xa = Some (xb, yb)" by simp
    from nl[OF this] 7(1) show ?case by auto
  next
    case (8 cb ls i e li s x1 x y xa ya x2 xb yb)
    from 8 have "next_line ls e i False True xa = Some (xb, yb)" by simp
    from nl[OF this] 8(1) show ?case by auto
  qed
qed


subsection \<open>Sample script\<close>

text \<open>
  Callbacks that record, for every command and condition run, the line and the line
  index it was given; the conditions of the if-else lines are given by \<open>conds\<close>. The
  script is \<open>if c0; A; elif c2; B; end; C\<close>.
\<close>

definition trace_callbacks :: "(nat \<Rightarrow> bool) \<Rightarrow> (nat \<times> nat) list callbacks" where
  "trace_callbacks conds =
     \<lparr>exec_set = (\<lambda>ln s. Return s),
      exec_cmd = (\<lambda>ln li single s. Return (s @ [(l_id ln, li)])),
      exec_if = (\<lambda>ln li s. Return (conds (l_id ln), s @ [(l_id ln, li)]))\<rparr>"

definition sample_script :: "line list" where
  "sample_script =
     [\<lparr>ltype = cmd_if, l_id = 0\<rparr>, \<lparr>ltype = cmd, l_id = 1\<rparr>, \<lparr>ltype = cmd_elif, l_id = 2\<rparr>,
      \<lparr>ltype = cmd, l_id = 3\<rparr>, \<lparr>ltype = cmd_end, l_id = 4\<rparr>, \<lparr>ltype = cmd, l_id = 5\<rparr>]"

section \<open>Theorems: targets\<close>

subsection \<open>target::recipe\<close>

lemma recipe_permitted:
  "(\<exists>t'. recipe gt eq a r t = Inr t') \<longleftrightarrow>
     (gt a (action t) \<or> recipe_m t = empty_recipe) \<and>
     (eq a (action t) \<and> recipe_m t \<noteq> empty_recipe \<longrightarrow> recipe_m t = noop_recipe)"
  by (auto simp: recipe_def noop_recipe_def Let_def)

lemma recipe_rejected:
  "recipe gt eq a r t = Inl AssertFail \<longleftrightarrow>
     \<not> ((gt a (action t) \<or> recipe_m t = empty_recipe) \<and>
        (eq a (action t) \<and> recipe_m t \<noteq> empty_recipe \<longrightarrow> recipe_m t = noop_recipe))"
  by (auto simp: recipe_def noop_recipe_def Let_def)

lemma recipe_assigns:
  "recipe gt eq a r t = Inr t' \<Longrightarrow> action t' = a \<and> recipe_m t' = r"
  by (auto simp: recipe_def Let_def split: if_splits)

text \<open>
  Claim C5. \<^verbatim>\<open>target::recipe (a, r)\<close> goes through exactly when the new action is stronger
  than the one the target is matched for or no recipe is set, and, if the actions are
  equal while a recipe is set, when that recipe is the noop recipe; every other
  reassignment trips an assertion. When it goes through, the target holds the new action
  and recipe.
\<close>

theorem recipe_reassign:
  "((\<exists>t'. recipe gt eq a r t = Inr t') \<longleftrightarrow>
      (gt a (action t) \<or> recipe_m t = empty_recipe) \<and>
      (eq a (action t) \<and> recipe_m t \<noteq> empty_recipe \<longrightarrow> recipe_m t = noop_recipe)) \<and>
   (recipe gt eq a r t = Inl AssertFail \<longleftrightarrow>
      \<not> ((gt a (action t) \<or> recipe_m t = empty_recipe) \<and>
         (eq a (action t) \<and> recipe_m t \<noteq> empty_recipe \<longrightarrow> recipe_m t = noop_recipe))) \<and>
   (\<forall>t'. recipe gt eq a r t = Inr t' \<longrightarrow> action t' = a \<and> recipe_m t' = r)"
  using recipe_permitted [of gt eq a r t] recipe_rejected [of gt eq a r t]
    recipe_assigns [of gt eq a r t]
  by blast

theorem recipe_reassign_witness:
  "sample_gt 1 (action noop_target) \<and> sample_eq 1 (action noop_target) \<and>
   recipe_m noop_target \<noteq> empty_recipe \<and> recipe_m noop_target = noop_recipe \<and>
   (\<exists>t'. recipe sample_gt sample_eq 1 (function_pointer default_action) noop_target = Inr t') \<and>
   \<not> sample_gt 17 (action noop_target) \<and>
   recipe sample_gt sample_eq 17 (function_pointer default_action) noop_target = Inl AssertFail"
  using recipe_reassign [of sample_gt sample_eq 1 "function_pointer default_action" noop_target]
    recipe_reassign [of sample_gt sample_eq 17 "function_pointer default_action" noop_target]
  by (simp add: sample_gt_def sample_eq_def noop_target_def noop_recipe_def)

subsection \<open>path_target::derive_path\<close>












subsection \<open>target_set::find and target_set::insert\<close>
















lemma call_factory_decided:
  "call_factory f tt d o' n (Some e2) = Inr (new_target tt d o' n (Some e2))"
  by (simp add: call_factory_def target_factory_def file_factory_def buildfile_factory_def
      man_factory_def split: factory.splits)

lemma key_eq_refl: "key_eq k k"
  by (simp add: key_eq_def)

lemma key_ext_update:
  "key (t\<lparr>ext := e\<rparr>) = (key t)\<lparr>kext := e\<rparr>"
  by (simp add: key_def)










lemma man_type_factory: "tt_factory man_type = Some man_factory_ptr"
  by (simp add: man_type_def)

lemma insert_ts_man_unspecified:
  "insert_ts man_type ''/tmp/out'' [] ''foo'' None [] = Inl (Fail ''man target'')"
  by (simp add: insert_ts_def find_ts_def man_type_factory call_factory_def man_factory_def)

lemma insert_ts_fixed_ext:
  "insert_ts (doc_type var_ext) d o' n None [] =
     Inr ([new_target (doc_type var_ext) d o' n (Some [])], 0, True) \<and>
   insert_ts (doc_type var_ext) d o' n (Some ''txt'')
     [new_target (doc_type var_ext) d o' n (Some [])] =
     Inr ([new_target (doc_type var_ext) d o' n (Some []),
           new_target (doc_type var_ext) d o' n (Some ''txt'')], 1, True)"
proof -
  have f: "tt_factory (doc_type var_ext) = Some (file_factory_ptr (Some []))"
    by (simp add: doc_type_def)
  show ?thesis
    by (simp add: insert_ts_def find_ts_def f call_factory_def file_factory_def key_eq_def key_def
        new_target_def)
qed



section \<open>Theorems: the compile rule\<close>

subsection \<open>compile::apply: the input fingerprint\<close>

lemma expect_step:
  assumes "dd_pos d = n" "n \<le> length (dd_lines d)"
  shows "dd_pos (fst (expect l d)) = Suc n"
    and "Suc n \<le> length (dd_lines (fst (expect l d)))"
    and "take (Suc n) (dd_lines (fst (expect l d))) = take n (dd_lines d) @ [Some l]"
    and "dd_mtime (fst (expect l d)) = dd_mtime d"
  using assms by (auto simp: expect_def take_Suc_conv_app_nth nth_append)

lemma expect_read:
  "dd_state (fst (expect l d)) = dd_read \<longleftrightarrow>
     dd_state d = dd_read \<and> dd_pos d < length (dd_lines d) \<and> dd_lines d ! dd_pos d = Some l"
  by (simp add: expect_def)

lemma expect_read_lines:
  "dd_state (fst (expect l d)) = dd_read \<Longrightarrow> dd_lines (fst (expect l d)) = dd_lines d"
  by (simp add: expect_def split: if_splits)

lemma expect_write:
  "dd_state (fst (expect l d)) = dd_write \<longleftrightarrow> dd_state (fst (expect l d)) \<noteq> dd_read"
  by (simp add: expect_def)

lemma expect_answer:
  "snd (expect l d) \<noteq> None \<longleftrightarrow> dd_state (fst (expect l d)) \<noteq> dd_read"
  by (simp add: expect_def)

lemma take4_nth:
  "take 4 ls = [a, b, c, e] \<longleftrightarrow> 3 < length ls \<and> ls ! 0 = a \<and> ls ! 1 = b \<and> ls ! 2 = c \<and> ls ! 3 = e"
proof (cases ls)
  case Nil then show ?thesis by simp
next
  case (Cons x1 l1)
  show ?thesis
  proof (cases l1)
    case Nil then show ?thesis using Cons by simp
  next
    case (Cons x2 l2)
    note c2 = Cons
    show ?thesis
    proof (cases l2)
      case Nil then show ?thesis using c2 \<open>ls = x1 # l1\<close> by simp
    next
      case (Cons x3 l3)
      note c3 = Cons
      show ?thesis
      proof (cases l3)
        case Nil then show ?thesis using c2 c3 \<open>ls = x1 # l1\<close> by simp
      next
        case (Cons x4 l4)
        have "take 4 ls = [x1, x2, x3, x4]"
          using c2 c3 Cons \<open>ls = x1 # l1\<close> by (simp add: numeral_eq_Suc)
        moreover have "ls ! 0 = x1" "ls ! 1 = x2" "ls ! 2 = x3" "ls ! 3 = x4" "3 < length ls"
          using c2 c3 Cons \<open>ls = x1 # l1\<close> by (simp_all add: numeral_eq_Suc)
        ultimately show ?thesis by simp
      qed
    qed
  qed
qed


text \<open>
  Claim C2. Run on a freshly opened database, the fingerprint part of \<^verbatim>\<open>compile::apply\<close>
  leaves the four lines \<open>cxx.compile 1\<close>, the compiler checksum, the options checksum
  and the source path, in this order, as the first four lines of the database. The
  database is then in write mode exactly when one of the four \<^verbatim>\<open>expect\<close> calls answered
  a mismatch, which is exactly when the stored file did not start with these four
  lines; and the target's mtime is reset to \<^verbatim>\<open>timestamp_nonexistent\<close> exactly when the
  database is in write mode or its mtime is newer than the target's, the target being
  left as it was otherwise.
\<close>

theorem apply_depdb_fingerprint:
  assumes a: "apply_depdb cs os src (depdb_open ls mt) t = (d', t')"
  shows "take 4 (dd_lines d') = [Some ''cxx.compile 1'', Some cs, Some os, Some src] \<and>
     (writing d' \<longleftrightarrow>
        (let r1 = expect ''cxx.compile 1'' (depdb_open ls mt); r2 = expect cs (fst r1);
             r3 = expect os (fst r2); r4 = expect src (fst r3)
         in snd r1 \<noteq> None \<or> snd r2 \<noteq> None \<or> snd r3 \<noteq> None \<or> snd r4 \<noteq> None)) \<and>
     (writing d' \<longleftrightarrow> take 4 ls \<noteq> [Some ''cxx.compile 1'', Some cs, Some os, Some src]) \<and>
     dd_mtime d' = mt \<and>
     t' = (if writing d' \<or> mt > mtime_m t then t\<lparr>mtime_m := timestamp_nonexistent\<rparr> else t)"
proof -
  define d0 where "d0 = depdb_open ls mt"
  define d1 where "d1 = fst (expect ''cxx.compile 1'' d0)"
  define d2 where "d2 = fst (expect cs d1)"
  define d3 where "d3 = fst (expect os d2)"
  define d4 where "d4 = fst (expect src d3)"
  have "apply_depdb cs os src (depdb_open ls mt) t =
      (d4, if writing d4 \<or> dd_mtime d4 > mtime_m t
           then t\<lparr>mtime_m := timestamp_nonexistent\<rparr> else t)"
    unfolding apply_depdb_def Let_def d0_def d1_def d2_def d3_def d4_def ..
  with a have d': "d' = d4"
    and t': "t' = (if writing d4 \<or> dd_mtime d4 > mtime_m t
                   then t\<lparr>mtime_m := timestamp_nonexistent\<rparr> else t)"
    by auto
  have p0: "dd_pos d0 = 0" "0 \<le> length (dd_lines d0)" "dd_lines d0 = ls" "dd_mtime d0 = mt"
    "dd_state d0 = dd_read"
    by (simp_all add: d0_def depdb_open_def)
  note s1 = expect_step[OF p0(1) p0(2), of "''cxx.compile 1''", folded d1_def]
  note s2 = expect_step[OF s1(1) s1(2), of cs, folded d2_def]
  note s3 = expect_step[OF s2(1) s2(2), of os, folded d3_def]
  note s4 = expect_step[OF s3(1) s3(2), of src, folded d4_def]
  have lines: "take 4 (dd_lines d4) = [Some ''cxx.compile 1'', Some cs, Some os, Some src]"
    using s1(3) s2(3) s3(3) s4(3) by (simp add: numeral_eq_Suc)
  have mtime: "dd_mtime d4 = mt"
    using s1(4) s2(4) s3(4) s4(4) p0(4) by simp
  have r1: "dd_state d1 = dd_read \<longleftrightarrow> 0 < length ls \<and> ls ! 0 = Some ''cxx.compile 1''"
    unfolding d1_def expect_read using p0 by simp
  have l1: "dd_state d1 = dd_read \<Longrightarrow> dd_lines d1 = ls"
    unfolding d1_def using expect_read_lines p0(3) by metis
  have r2: "dd_state d2 = dd_read \<longleftrightarrow> dd_state d1 = dd_read \<and> 1 < length ls \<and> ls ! 1 = Some cs"
    unfolding d2_def expect_read using s1(1) l1 by auto
  have l2: "dd_state d2 = dd_read \<Longrightarrow> dd_lines d2 = ls"
    using expect_read_lines[of cs d1] r2 l1 by (simp add: d2_def)
  have r3: "dd_state d3 = dd_read \<longleftrightarrow> dd_state d2 = dd_read \<and> 2 < length ls \<and> ls ! 2 = Some os"
    unfolding d3_def expect_read using s2(1) l2 by (auto simp: numeral_2_eq_2)
  have l3: "dd_state d3 = dd_read \<Longrightarrow> dd_lines d3 = ls"
    using expect_read_lines[of os d2] r3 l2 by (simp add: d3_def)
  have r4: "dd_state d4 = dd_read \<longleftrightarrow> dd_state d3 = dd_read \<and> 3 < length ls \<and> ls ! 3 = Some src"
    unfolding d4_def expect_read using s3(1) l3 by (auto simp: numeral_3_eq_3)
  have rd: "dd_state d4 = dd_read \<longleftrightarrow>
      take 4 ls = [Some ''cxx.compile 1'', Some cs, Some os, Some src]"
    unfolding take4_nth using r1 r2 r3 r4 by auto
  have w4: "writing d4 \<longleftrightarrow> dd_state d4 \<noteq> dd_read"
    unfolding writing_def d4_def by (rule expect_write)
  have w3: "dd_state d3 \<noteq> dd_read \<Longrightarrow> dd_state d4 \<noteq> dd_read" using r4 by simp
  have w2: "dd_state d2 \<noteq> dd_read \<Longrightarrow> dd_state d3 \<noteq> dd_read" using r3 by simp
  have w1: "dd_state d1 \<noteq> dd_read \<Longrightarrow> dd_state d2 \<noteq> dd_read" using r2 by simp
  have ans: "(let r1 = expect ''cxx.compile 1'' (depdb_open ls mt); r2 = expect cs (fst r1);
             r3 = expect os (fst r2); r4 = expect src (fst r3)
         in snd r1 \<noteq> None \<or> snd r2 \<noteq> None \<or> snd r3 \<noteq> None \<or> snd r4 \<noteq> None) \<longleftrightarrow>
       dd_state d1 \<noteq> dd_read \<or> dd_state d2 \<noteq> dd_read \<or> dd_state d3 \<noteq> dd_read \<or>
       dd_state d4 \<noteq> dd_read"
    unfolding Let_def expect_answer d0_def[symmetric] d1_def[symmetric] d2_def[symmetric]
      d3_def[symmetric] d4_def[symmetric] ..
  have wa: "writing d4 \<longleftrightarrow>
      (let r1 = expect ''cxx.compile 1'' (depdb_open ls mt); r2 = expect cs (fst r1);
             r3 = expect os (fst r2); r4 = expect src (fst r3)
         in snd r1 \<noteq> None \<or> snd r2 \<noteq> None \<or> snd r3 \<noteq> None \<or> snd r4 \<noteq> None)"
    unfolding ans w4 using w1 w2 w3 by blast
  have wl: "writing d4 \<longleftrightarrow> take 4 ls \<noteq> [Some ''cxx.compile 1'', Some cs, Some os, Some src]"
    unfolding w4 rd ..
  show ?thesis
    unfolding d' using lines wa wl mtime t' by (simp only: simp_thms)
qed


theorem apply_depdb_fingerprint_witness:
  "take 4 (dd_lines (fst (apply_depdb ''c1'' ''o1'' ''/s.cxx''
      (depdb_open [Some ''cxx.compile 1'', Some ''c1'', Some ''o0'', Some ''/s.cxx'', Some ''/h.hxx''] 5)
      hxx_target))) = [Some ''cxx.compile 1'', Some ''c1'', Some ''o1'', Some ''/s.cxx''] \<and>
   writing (fst (apply_depdb ''c1'' ''o1'' ''/s.cxx''
      (depdb_open [Some ''cxx.compile 1'', Some ''c1'', Some ''o0'', Some ''/s.cxx'', Some ''/h.hxx''] 5)
      hxx_target)) \<and>
   snd (apply_depdb ''c1'' ''o1'' ''/s.cxx''
      (depdb_open [Some ''cxx.compile 1'', Some ''c1'', Some ''o0'', Some ''/s.cxx'', Some ''/h.hxx''] 5)
      hxx_target) = hxx_target\<lparr>mtime_m := timestamp_nonexistent\<rparr> \<and>
   \<not> writing (fst (apply_depdb ''c1'' ''o1'' ''/s.cxx''
      (depdb_open [Some ''cxx.compile 1'', Some ''c1'', Some ''o1'', Some ''/s.cxx'', Some ''/h.hxx''] (- 5))
      hxx_target)) \<and>
   snd (apply_depdb ''c1'' ''o1'' ''/s.cxx''
      (depdb_open [Some ''cxx.compile 1'', Some ''c1'', Some ''o1'', Some ''/s.cxx'', Some ''/h.hxx''] (- 5))
      hxx_target) = hxx_target"
proof -
  note w1 = apply_depdb_fingerprint [OF prod.collapse [symmetric], of "''c1''" "''o1''" "''/s.cxx''"
      "[Some ''cxx.compile 1'', Some ''c1'', Some ''o0'', Some ''/s.cxx'', Some ''/h.hxx'']" 5 hxx_target]
  note w2 = apply_depdb_fingerprint [OF prod.collapse [symmetric], of "''c1''" "''o1''" "''/s.cxx''"
      "[Some ''cxx.compile 1'', Some ''c1'', Some ''o1'', Some ''/s.cxx'', Some ''/h.hxx'']" "- 5" hxx_target]
  have a: "take 4 [Some ''cxx.compile 1'', Some ''c1'', Some ''o0'', Some ''/s.cxx'', Some ''/h.hxx''] \<noteq>
      [Some ''cxx.compile 1'', Some ''c1'', Some ''o1'', Some ''/s.cxx'']"
    by simp
  have b: "take 4 [Some ''cxx.compile 1'', Some ''c1'', Some ''o1'', Some ''/s.cxx'', Some ''/h.hxx''] =
      [Some ''cxx.compile 1'', Some ''c1'', Some ''o1'', Some ''/s.cxx'']"
    by simp
  have m: "\<not> (- 5 > mtime_m hxx_target)"
    by (simp add: hxx_target_def)
  note l1 = w1 [THEN conjunct1]
  have wr1: "writing (fst (apply_depdb ''c1'' ''o1'' ''/s.cxx''
      (depdb_open [Some ''cxx.compile 1'', Some ''c1'', Some ''o0'', Some ''/s.cxx'', Some ''/h.hxx''] 5)
      hxx_target))"
    using w1 [THEN conjunct2, THEN conjunct2, THEN conjunct1] a by blast
  have t1: "snd (apply_depdb ''c1'' ''o1'' ''/s.cxx''
      (depdb_open [Some ''cxx.compile 1'', Some ''c1'', Some ''o0'', Some ''/s.cxx'', Some ''/h.hxx''] 5)
      hxx_target) = hxx_target\<lparr>mtime_m := timestamp_nonexistent\<rparr>"
    using w1 [THEN conjunct2, THEN conjunct2, THEN conjunct2, THEN conjunct2] wr1
    by (simp only: simp_thms if_True)
  have wr2: "\<not> writing (fst (apply_depdb ''c1'' ''o1'' ''/s.cxx''
      (depdb_open [Some ''cxx.compile 1'', Some ''c1'', Some ''o1'', Some ''/s.cxx'', Some ''/h.hxx''] (- 5))
      hxx_target))"
    using w2 [THEN conjunct2, THEN conjunct2, THEN conjunct1] b by blast
  have t2: "snd (apply_depdb ''c1'' ''o1'' ''/s.cxx''
      (depdb_open [Some ''cxx.compile 1'', Some ''c1'', Some ''o1'', Some ''/s.cxx'', Some ''/h.hxx''] (- 5))
      hxx_target) = hxx_target"
    using w2 [THEN conjunct2, THEN conjunct2, THEN conjunct2, THEN conjunct2] wr2 m
    by (simp only: simp_thms if_False)
  from l1 wr1 t1 wr2 t2 show ?thesis by (simp only: simp_thms)
qed

subsection \<open>inject_prerequisites: the walk over the cached headers\<close>

lemma update_eq:
  "update exec pt ts =
     (let pt1 = (if raw_state pt \<noteq> unchanged then snd (exec pt) else pt) in
      ((raw_state pt \<noteq> unchanged \<and> fst (exec pt) \<noteq> raw_state pt \<and> fst (exec pt) \<noteq> unchanged) \<or>
       (ts \<noteq> timestamp_unknown \<and>
        (ts < mtime_m pt1 \<or> (ts = mtime_m pt1 \<and> raw_state pt1 \<noteq> changed))), pt1))"
  by (auto simp: update_def Let_def split: prod.splits)

lemma add_cached_absolute:
  "absolute f \<Longrightarrow>
   add e f True st =
     Inr (fst (update (execute_direct e) (header_target e f) (dd_mtime (dd st))),
          st\<lparr>prerequisite_targets := prerequisite_targets st @
             [snd (update (execute_direct e) (header_target e f) (dd_mtime (dd st)))]\<rparr>)"
  by (simp add: add_def Let_def split: prod.splits)

lemma read_Some: "read d = (d1, Some f) \<Longrightarrow> dd_mtime d1 = dd_mtime d"
  by (auto simp: read_def split: option.splits if_splits)

text \<open>
  Claim C4, as the code has it. In the walk over the cached header list, an invalid
  line restarts the extraction. For a header \<open>f\<close> read from the database (an absolute
  path), let \<open>upd\<close> say that its update changed it (the state \<^verbatim>\<open>execute_direct\<close> returned
  differs from the one before and is not \<^verbatim>\<open>unchanged\<close>) and \<open>newer\<close> that the mtime of the
  database is known and older than the header's (or equal to it while the header is not
  in the state \<^verbatim>\<open>changed\<close>). The loop restarts at this header, touching the database,
  exactly when \<open>upd\<close> or \<open>newer\<close> holds; otherwise it goes on with the next line, and at
  the end of the list it ends without a restart.
\<close>

theorem cache_loop_restart:
  assumes pt: "pt = header_target e f"
    and pt1: "pt1 = (if raw_state pt \<noteq> unchanged then snd (execute_direct e pt) else pt)"
    and upd: "upd \<longleftrightarrow> raw_state pt \<noteq> unchanged \<and> fst (execute_direct e pt) \<noteq> raw_state pt \<and>
                fst (execute_direct e pt) \<noteq> unchanged"
    and newer: "newer \<longleftrightarrow> dd_mtime (dd st) \<noteq> timestamp_unknown \<and>
                (dd_mtime (dd st) < mtime_m pt1 \<or>
                 (dd_mtime (dd st) = mtime_m pt1 \<and> raw_state pt1 \<noteq> changed))"
    and st1: "st1 = st\<lparr>dd := d1, prerequisite_targets := prerequisite_targets st @ [pt1],
                skip_count := skip_count st + 1\<rparr>"
  shows "(\<not> dd_more (dd st) \<longrightarrow> cache_loop e now st = Inr (False, st)) \<and>
    (dd_more (dd st) \<and> read (dd st) = (d1, None) \<longrightarrow>
       cache_loop e now st = Inr (True, st\<lparr>dd := d1\<rparr>)) \<and>
    (dd_more (dd st) \<and> read (dd st) = (d1, Some f) \<and> absolute f \<and> (upd \<or> newer) \<longrightarrow>
       cache_loop e now st = Inr (True, st1\<lparr>dd := touch now d1\<rparr>)) \<and>
    (dd_more (dd st) \<and> read (dd st) = (d1, Some f) \<and> absolute f \<and> \<not> (upd \<or> newer) \<longrightarrow>
       cache_loop e now st = cache_loop e now st1)"
proof (intro conjI impI)
  assume "\<not> dd_more (dd st)"
  then show "cache_loop e now st = Inr (False, st)" by simp
next
  assume "dd_more (dd st) \<and> read (dd st) = (d1, None)"
  then show "cache_loop e now st = Inr (True, st\<lparr>dd := d1\<rparr>)" by simp
next
  assume a: "dd_more (dd st) \<and> read (dd st) = (d1, Some f) \<and> absolute f \<and> (upd \<or> newer)"
  then have mt: "dd_mtime d1 = dd_mtime (dd st)" using read_Some by blast
  have u: "update (execute_direct e) (header_target e f) (dd_mtime d1) = (upd \<or> newer, pt1)"
    unfolding update_eq mt using pt pt1 upd newer by (simp add: Let_def)
  have ad: "add e f True (st\<lparr>dd := d1\<rparr>) =
      Inr (upd \<or> newer, st\<lparr>dd := d1, prerequisite_targets := prerequisite_targets st @ [pt1]\<rparr>)"
    using a u by (simp add: add_cached_absolute)
  show "cache_loop e now st = Inr (True, st1\<lparr>dd := touch now d1\<rparr>)"
    using a ad by (subst cache_loop.simps) (simp add: st1)
next
  assume a: "dd_more (dd st) \<and> read (dd st) = (d1, Some f) \<and> absolute f \<and> \<not> (upd \<or> newer)"
  then have mt: "dd_mtime d1 = dd_mtime (dd st)" using read_Some by blast
  have u: "update (execute_direct e) (header_target e f) (dd_mtime d1) = (upd \<or> newer, pt1)"
    unfolding update_eq mt using pt pt1 upd newer by (simp add: Let_def)
  have ad: "add e f True (st\<lparr>dd := d1\<rparr>) =
      Inr (upd \<or> newer, st\<lparr>dd := d1, prerequisite_targets := prerequisite_targets st @ [pt1]\<rparr>)"
    using a u by (simp add: add_cached_absolute)
  show "cache_loop e now st = cache_loop e now st1"
    using a ad by (subst cache_loop.simps) (simp add: st1)
qed


lemma sample_read:
  "read (depdb_open [Some ''/usr/include/a.h''] mt) =
     ((depdb_open [Some ''/usr/include/a.h''] mt)\<lparr>dd_pos := 1\<rparr>, Some ''/usr/include/a.h'')"
  by (simp add: read_def dd_more_def depdb_open_def)

theorem cache_loop_restart_witness:
  "dd_more (dd (sample_state [Some ''/usr/include/a.h''] 5)) \<and>
   read (dd (sample_state [Some ''/usr/include/a.h''] 5)) =
     ((depdb_open [Some ''/usr/include/a.h''] 5)\<lparr>dd_pos := 1\<rparr>, Some ''/usr/include/a.h'') \<and>
   absolute ''/usr/include/a.h'' \<and>
   dd_mtime (dd (sample_state [Some ''/usr/include/a.h''] 5)) <
     mtime_m (header_target sample_env ''/usr/include/a.h'') \<and>
   cache_loop sample_env 20 (sample_state [Some ''/usr/include/a.h''] 5) =
     Inr (True,
       (sample_state [Some ''/usr/include/a.h''] 5)
         \<lparr>dd := (depdb_open [Some ''/usr/include/a.h''] 5)\<lparr>dd_pos := 1\<rparr>,
          prerequisite_targets := [sample_header ''/usr/include/a.h''],
          skip_count := 1\<rparr>
         \<lparr>dd := touch 20 ((depdb_open [Some ''/usr/include/a.h''] 5)\<lparr>dd_pos := 1\<rparr>)\<rparr>)"
proof -
  have m: "dd_more (dd (sample_state [Some ''/usr/include/a.h''] 5))"
    by (simp add: sample_state_def dd_more_def depdb_open_def)
  have r: "read (dd (sample_state [Some ''/usr/include/a.h''] 5)) =
     ((depdb_open [Some ''/usr/include/a.h''] 5)\<lparr>dd_pos := 1\<rparr>, Some ''/usr/include/a.h'')"
    by (simp add: sample_state_def sample_read)
  have a: "absolute ''/usr/include/a.h''"
    by (simp add: absolute_def)
  have h: "header_target sample_env ''/usr/include/a.h'' = sample_header ''/usr/include/a.h''"
    by (simp add: sample_env_def)
  have u: "raw_state (sample_header ''/usr/include/a.h'') = unchanged"
    "mtime_m (sample_header ''/usr/include/a.h'') = 10"
    by (simp_all add: sample_header_def)
  have d: "dd_mtime (dd (sample_state [Some ''/usr/include/a.h''] 5)) = 5"
    by (simp add: sample_state_def depdb_open_def)
  have n: "dd_mtime (dd (sample_state [Some ''/usr/include/a.h''] 5)) \<noteq> timestamp_unknown \<and>
      (dd_mtime (dd (sample_state [Some ''/usr/include/a.h''] 5)) <
         mtime_m (sample_header ''/usr/include/a.h'') \<or>
       (dd_mtime (dd (sample_state [Some ''/usr/include/a.h''] 5)) =
          mtime_m (sample_header ''/usr/include/a.h'') \<and>
        raw_state (sample_header ''/usr/include/a.h'') \<noteq> changed))"
    by (simp add: d u timestamp_unknown_def)
  note w = cache_loop_restart [where e = sample_env and f = "''/usr/include/a.h''"
      and st = "sample_state [Some ''/usr/include/a.h''] 5" and now = 20
      and ?d1.0 = "(depdb_open [Some ''/usr/include/a.h''] 5)\<lparr>dd_pos := 1\<rparr>",
      OF refl refl refl refl refl, THEN conjunct2, THEN conjunct2, THEN conjunct1, rule_format]
  have "cache_loop sample_env 20 (sample_state [Some ''/usr/include/a.h''] 5) =
     Inr (True,
       (sample_state [Some ''/usr/include/a.h''] 5)
         \<lparr>dd := (depdb_open [Some ''/usr/include/a.h''] 5)\<lparr>dd_pos := 1\<rparr>,
          prerequisite_targets :=
            prerequisite_targets (sample_state [Some ''/usr/include/a.h''] 5) @
            [if raw_state (header_target sample_env ''/usr/include/a.h'') \<noteq> unchanged
             then snd (execute_direct sample_env (header_target sample_env ''/usr/include/a.h''))
             else header_target sample_env ''/usr/include/a.h''],
          skip_count := skip_count (sample_state [Some ''/usr/include/a.h''] 5) + 1\<rparr>
         \<lparr>dd := touch 20 ((depdb_open [Some ''/usr/include/a.h''] 5)\<lparr>dd_pos := 1\<rparr>)\<rparr>)"
    by (rule w) (simp add: m r a h u d timestamp_unknown_def)
  then have c: "cache_loop sample_env 20 (sample_state [Some ''/usr/include/a.h''] 5) =
     Inr (True,
       (sample_state [Some ''/usr/include/a.h''] 5)
         \<lparr>dd := (depdb_open [Some ''/usr/include/a.h''] 5)\<lparr>dd_pos := 1\<rparr>,
          prerequisite_targets := [sample_header ''/usr/include/a.h''],
          skip_count := 1\<rparr>
         \<lparr>dd := touch 20 ((depdb_open [Some ''/usr/include/a.h''] 5)\<lparr>dd_pos := 1\<rparr>)\<rparr>)"
    by (simp add: h u sample_state_def)
  from m r a c show ?thesis by (simp add: h u d)
qed

text \<open>
  The claim as stated fails in both directions of its "and". A cached header whose
  state is \<^verbatim>\<open>unchanged\<close> (no update is run on it, nothing changed) and whose mtime 10 is
  newer than the database's mtime 5 restarts the extraction. And a cached header that
  its update changes restarts it although its mtime 10 is older than the database's
  mtime 15.
\<close>

theorem cache_loop_restart_or:
  "raw_state (header_target sample_env ''/usr/include/a.h'') = unchanged \<and>
   fst (the_inr (cache_loop sample_env 20 (sample_state [Some ''/usr/include/a.h''] 5))) \<and>
   fst (execute_direct sample_env_stale (header_target sample_env_stale ''/usr/include/a.h'')) = changed \<and>
   \<not> 15 < mtime_m (snd (execute_direct sample_env_stale
                            (header_target sample_env_stale ''/usr/include/a.h''))) \<and>
   fst (the_inr (cache_loop sample_env_stale 20 (sample_state [Some ''/usr/include/a.h''] 15)))"
proof -
  have a: "absolute ''/usr/include/a.h''"
    by (simp add: absolute_def)
  have 1: "fst (the_inr (cache_loop sample_env 20 (sample_state [Some ''/usr/include/a.h''] 5)))"
    by (subst cache_loop.simps)
      (simp add: sample_state_def sample_read dd_more_def add_cached_absolute [OF a] update_def
        sample_env_def sample_header_def timestamp_unknown_def the_inr_def,
       simp add: depdb_open_def)
  have 2: "fst (the_inr (cache_loop sample_env_stale 20 (sample_state [Some ''/usr/include/a.h''] 15)))"
    by (subst cache_loop.simps)
      (simp add: sample_state_def sample_read dd_more_def add_cached_absolute [OF a] update_def
        sample_env_stale_def sample_env_def sample_header_def timestamp_unknown_def the_inr_def,
       simp add: depdb_open_def)
  show ?thesis
    using 1 2 by (simp add: sample_env_stale_def sample_env_def sample_header_def)
qed

subsection \<open>inject_prerequisites: mapping a non-existent header to a project\<close>

lemma upper_bound_le: "upper_bound m d \<le> length m"
  by (induction m d rule: upper_bound.induct) auto

lemma prefix_lookup_sub: "prefix_lookup m d = Some i \<Longrightarrow> i \<in> set m \<and> sub d (fst i)"
proof -
  assume a: "prefix_lookup m d = Some i"
  then have "upper_bound m d \<noteq> 0" and "i = m ! (upper_bound m d - 1)"
    and "sub d (fst (m ! (upper_bound m d - 1)))"
    by (auto simp: prefix_lookup_def Let_def split: if_splits)
  moreover have "upper_bound m d - 1 < length m"
    using upper_bound_le [of m d] \<open>upper_bound m d \<noteq> 0\<close> by simp
  ultimately show ?thesis by simp
qed

lemma sample_prefix_map:
  "build_prefix_map (prefixes sample_env) = [(''foo'', ''/tmp/out''), (''foo/bar'', ''/tmp/out'')]"
  by (simp add: build_prefix_map_def sample_env_def append_prefix_def dir_less_def)

lemma sample_prefix_lookup:
  "prefix_lookup [(''foo'', ''/tmp/out''), (''foo/bar'', ''/tmp/out'')] ''foo/baz'' = None"
  by (simp add: prefix_lookup_def dir_less_def sub_def)

lemma sample_directory: "directory ''foo/baz/gen.hxx'' = ''foo/baz''"
  by (simp add: directory_def rfind_separator_def)

text \<open>
  Claim C3 at a failing input. The prefix map holds the prefixes \<open>foo\<close> and \<open>foo/bar\<close>.
  For the non-existent header \<open>foo/baz/gen.hxx\<close> the entry before the upper bound of
  \<open>foo/baz\<close> is \<open>foo/bar\<close>, which is not an ancestor, and \<^verbatim>\<open>add\<close> fails, although the
  entry \<open>foo\<close> is an ancestor of the header's directory.
\<close>

theorem add_unmapped_despite_ancestor:
  "build_prefix_map (prefixes sample_env) = [(''foo'', ''/tmp/out''), (''foo/bar'', ''/tmp/out'')] \<and>
   sub (directory ''foo/baz/gen.hxx'') ''foo'' \<and>
   add sample_env ''foo/baz/gen.hxx'' False (sample_state [] 5) =
     Inl (Fail ''unable to map presumably auto-generated header'')"
proof -
  have "add sample_env ''foo/baz/gen.hxx'' False (sample_state [] 5) =
     Inl (Fail ''unable to map presumably auto-generated header'')"
    using sample_prefix_map sample_prefix_lookup sample_directory
    by (simp add: add_def absolute_def sample_state_def sample_env_def)
  moreover have "sub (directory ''foo/baz/gen.hxx'') ''foo''"
    by (simp add: sample_directory sub_def)
  ultimately show ?thesis using sample_prefix_map by simp
qed

section \<open>Theorems: variable lines of a test script\<close>

lemma digits_loop_iff: "digits_loop s cs \<longleftrightarrow> s \<noteq> [] \<and> (\<forall>c \<in> set cs. digit c)"
  by (induction cs) auto

lemma digits_iff: "digits s \<longleftrightarrow> s \<noteq> [] \<and> (\<forall>c \<in> set s. digit c)"
  by (simp add: digits_def digits_loop_iff)

lemma pre_parse_special:
  "special_alias (vl_name ln) \<Longrightarrow> parse_variable_line True ln sc = Inl (Fail ''attempt to set'')"
  by (auto simp: parse_variable_line_def special_alias_def digits_iff Let_def)

lemma pre_parse_ok:
  "parse_variable_line True ln sc = Inr sc' \<Longrightarrow> \<not> special_alias (vl_name ln) \<and> sc' = sc"
  by (auto simp: parse_variable_line_def parse_variable_value_def special_alias_def digits_iff
      Let_def split: if_splits sum.splits)

lemma parse_lines_pre:
  "parse_lines True lns sc = Inr sc' \<Longrightarrow> \<forall>ln \<in> set lns. \<not> special_alias (vl_name ln)"
proof (induction lns arbitrary: sc)
  case Nil
  then show ?case by simp
next
  case (Cons ln lns)
  from Cons.prems obtain sc1 where 1: "parse_variable_line True ln sc = Inr sc1"
    and 2: "parse_lines True lns sc1 = Inr sc'"
    by (auto split: sum.splits)
  from pre_parse_ok[OF 1] Cons.IH[OF 2] show ?case by simp
qed

lemma special_not_source:
  "special_alias n \<Longrightarrow> n \<noteq> ''test'' \<and> n \<noteq> ''test.options'' \<and> n \<noteq> ''test.arguments''"
  by (auto simp: special_alias_def digit_def)

lemma lookup_variable_keeps:
  assumes "lookup_variable pp q n sc = Inr (l, sc1)" "m \<noteq> ''*''" "\<not> digits m"
  shows "sc1 m = sc m"
proof (cases "n \<noteq> ''*'' \<and> \<not> digits n")
  case True
  then show ?thesis using assms(1) by (auto simp: lookup_variable_def split: if_splits)
next
  case False
  then have nm: "n \<noteq> m" using assms(2,3) by auto
  show ?thesis
    using assms(1,2) False nm
    by (auto simp: lookup_variable_def Let_def split: if_splits option.splits)
qed

lemma expand_keeps:
  "expand ps sc = Inr (ws, sc1) \<Longrightarrow> m \<noteq> ''*'' \<Longrightarrow> \<not> digits m \<Longrightarrow> sc1 m = sc m"
proof (induction ps sc arbitrary: ws sc1 rule: expand.induct)
  case (1 sc)
  then show ?case by simp
next
  case (2 w ps sc)
  from "2.prems"(1) obtain ws' where "expand ps sc = Inr (ws', sc1)"
    by (auto split: sum.splits)
  then show ?case using "2.IH" "2.prems"(2,3) by blast
next
  case (3 q n ps sc)
  from "3.prems"(1) obtain l sc0 ws' where
    a: "lookup_variable False q n sc = Inr (l, sc0)" and b: "expand ps sc0 = Inr (ws', sc1)"
    by (auto split: sum.splits)
  have "sc1 m = sc0 m" using "3.IH"[OF a refl b "3.prems"(2,3)] .
  moreover have "sc0 m = sc m" by (rule lookup_variable_keeps[OF a "3.prems"(2,3)])
  ultimately show ?case by simp
qed

lemma tilde_not_digits: "\<not> digits ''~''"
  by (simp add: digits_def digit_def)

lemma exec_line_assigns:
  assumes "parse_variable_line False ln sc = Inr sc'"
  shows "\<exists>ps rhs sc1. vl_value ln = Inr ps \<and> parse_variable_value False ps sc = Inr (rhs, sc1) \<and>
           (\<forall>n. n \<noteq> vl_name ln \<longrightarrow> sc' n = sc1 n \<or> (n = ''*'' \<and> sc' n = Some None))"
  using assms
  by (auto simp: parse_variable_line_def Let_def split: sum.splits if_splits)

lemma exec_line_tilde:
  assumes "parse_variable_line False ln sc = Inr sc'" "vl_name ln \<noteq> ''~''"
  shows "sc' ''~'' = sc ''~''"
proof -
  from exec_line_assigns[OF assms(1)] obtain ps rhs sc1 where
    e: "parse_variable_value False ps sc = Inr (rhs, sc1)"
    and k: "\<forall>n. n \<noteq> vl_name ln \<longrightarrow> sc' n = sc1 n \<or> (n = ''*'' \<and> sc' n = Some None)"
    by blast
  from e have "expand ps sc = Inr (rhs, sc1)" by (simp add: parse_variable_value_def)
  then have "sc1 ''~'' = sc ''~''" by (rule expand_keeps) (simp_all add: tilde_not_digits)
  moreover have "sc' ''~'' = sc1 ''~''" using k[rule_format, of "''~''"] assms(2) by auto
  ultimately show ?thesis by simp
qed

lemma exec_lines_tilde:
  assumes "parse_lines False lns sc = Inr sc'" "\<forall>ln \<in> set lns. \<not> special_alias (vl_name ln)"
  shows "sc' ''~'' = sc ''~''"
  using assms
proof (induction lns arbitrary: sc)
  case Nil
  then show ?case by simp
next
  case (Cons ln lns)
  from Cons.prems(1) obtain sc1 where 1: "parse_variable_line False ln sc = Inr sc1"
    and 2: "parse_lines False lns sc1 = Inr sc'"
    by (auto split: sum.splits)
  from Cons.prems(2) have a: "vl_name ln \<noteq> ''~''"
    and b: "\<forall>ln \<in> set lns. \<not> special_alias (vl_name ln)"
    by (auto simp: special_alias_def)
  from exec_line_tilde[OF 1 a] Cons.IH[OF 2 b] show ?case by simp
qed

lemma run_script_special:
  assumes "ln \<in> set lns" "special_alias (vl_name ln)"
  shows "\<exists>err. run_script lns sc = Inl err"
proof (cases "parse_lines True lns sc")
  case (Inl err)
  then show ?thesis by (simp add: run_script_def)
next
  case (Inr sc')
  from parse_lines_pre[OF Inr] assms show ?thesis by blast
qed

lemma stoul_zero: "stoul ''0'' = Some (0, 1)"
  by (simp add: stoul_def isspace_def isdigit_def decimal_def)

lemma sample_lines_run:
  "run_script sample_lines root_scope =
     Inr [''*'' \<mapsto> Some [''foo''], ''test'' \<mapsto> Some [''foo''], ''0'' \<mapsto> Some [''foo''],
          ''x'' \<mapsto> Some [''foo'']]"
proof -
  have d: "\<not> digits ''test''" "\<not> digits ''x''" "digits ''0''"
    by (simp_all add: digits_def digit_def)
  have "parse_lines True sample_lines root_scope = Inr root_scope"
    by (simp add: sample_lines_def parse_variable_line_def parse_variable_value_def d)
  moreover have "parse_lines False sample_lines root_scope =
     Inr [''*'' \<mapsto> Some [''foo''], ''test'' \<mapsto> Some [''foo''], ''0'' \<mapsto> Some [''foo''],
          ''x'' \<mapsto> Some [''foo'']]"
    by (simp add: sample_lines_def root_scope_def parse_variable_line_def
        parse_variable_value_def lookup_variable_def apply_value_attributes_def path_string_def
        stoul_zero d Let_def fun_upd_twist)
  ultimately show ?thesis by (simp add: run_script_def)
qed

text \<open>
  Claim C10. With \<^verbatim>\<open>pre_parse_\<close> set, \<^verbatim>\<open>parse_variable_line\<close> fails on a line whose name is
  \<open>*\<close>, \<open>~\<close> or a non-empty string of digits, whatever the assignment kind and the
  value. A script with such a line fails, since it is pre-parsed before it is run, so
  the lines of a script that runs all assign other variables. When such a line is
  executed, an alias has the value that the expansion of the line's value left, unless
  it is \<open>*\<close> and the parser has reset it to null: what a line assigns is never an alias,
  and the aliases change only through \<^verbatim>\<open>lookup_variable\<close>, which stores the recalculated
  \<open>*\<close> and the \<open>$N\<close> it hands out, and through that reset. The alias \<open>~\<close>, which no lookup
  stores, is after the script what it was before.
\<close>

theorem parse_variable_line_alias:
  "(special_alias (vl_name ln) \<longrightarrow>
      parse_variable_line True ln sc = Inl (Fail ''attempt to set'')) \<and>
   (ln \<in> set lns \<and> special_alias (vl_name ln) \<longrightarrow> (\<exists>err. run_script lns sc = Inl err)) \<and>
   (run_script lns sc = Inr sc' \<longrightarrow>
      (\<forall>l \<in> set lns. \<not> special_alias (vl_name l)) \<and> sc' ''~'' = sc ''~'') \<and>
   (parse_variable_line False ln sc = Inr sc1 \<and> \<not> special_alias (vl_name ln) \<and>
    special_alias n \<longrightarrow>
      (\<exists>ps rhs sc0. vl_value ln = Inr ps \<and> parse_variable_value False ps sc = Inr (rhs, sc0) \<and>
         (sc1 n = sc0 n \<or> (n = ''*'' \<and> sc1 n = Some None))))"
proof -
  have 1: "special_alias (vl_name ln) \<longrightarrow>
      parse_variable_line True ln sc = Inl (Fail ''attempt to set'')"
    using pre_parse_special by blast
  have 2: "ln \<in> set lns \<and> special_alias (vl_name ln) \<longrightarrow> (\<exists>err. run_script lns sc = Inl err)"
    using run_script_special by blast
  have 3: "run_script lns sc = Inr sc' \<longrightarrow>
      (\<forall>l \<in> set lns. \<not> special_alias (vl_name l)) \<and> sc' ''~'' = sc ''~''"
  proof
    assume a: "run_script lns sc = Inr sc'"
    then obtain sc0 where p: "parse_lines True lns sc = Inr sc0"
      and e: "parse_lines False lns sc = Inr sc'"
      by (auto simp: run_script_def split: sum.splits)
    note ns = parse_lines_pre[OF p]
    from ns exec_lines_tilde[OF e ns]
    show "(\<forall>l \<in> set lns. \<not> special_alias (vl_name l)) \<and> sc' ''~'' = sc ''~''" ..
  qed
  have 4: "parse_variable_line False ln sc = Inr sc1 \<and> \<not> special_alias (vl_name ln) \<and>
    special_alias n \<longrightarrow>
      (\<exists>ps rhs sc0. vl_value ln = Inr ps \<and> parse_variable_value False ps sc = Inr (rhs, sc0) \<and>
         (sc1 n = sc0 n \<or> (n = ''*'' \<and> sc1 n = Some None)))"
  proof
    assume a: "parse_variable_line False ln sc = Inr sc1 \<and> \<not> special_alias (vl_name ln) \<and>
      special_alias n"
    then have ne: "n \<noteq> vl_name ln" by auto
    from a exec_line_assigns[of ln sc sc1] obtain ps rhs sc0 where
      v: "vl_value ln = Inr ps" "parse_variable_value False ps sc = Inr (rhs, sc0)"
      and k: "\<forall>n. n \<noteq> vl_name ln \<longrightarrow> sc1 n = sc0 n \<or> (n = ''*'' \<and> sc1 n = Some None)"
      by blast
    from k ne have "sc1 n = sc0 n \<or> (n = ''*'' \<and> sc1 n = Some None)" by blast
    with v show "\<exists>ps rhs sc0. vl_value ln = Inr ps \<and>
        parse_variable_value False ps sc = Inr (rhs, sc0) \<and>
        (sc1 n = sc0 n \<or> (n = ''*'' \<and> sc1 n = Some None))" by blast
  qed
  from 1 2 3 4 show ?thesis by (intro conjI)
qed

theorem parse_variable_line_alias_witness:
  "special_alias ''42'' \<and> special_alias ''*'' \<and> special_alias ''~'' \<and>
   parse_variable_line True
     \<lparr>vl_name = ''42'', vl_kind = tt_assign, vl_value = Inr [literal_word ''x''],
      vl_next = tt_newline\<rparr>
     root_scope = Inl (Fail ''attempt to set'') \<and>
   parse_variable_line True
     \<lparr>vl_name = ''*'', vl_kind = tt_append, vl_value = Inr [literal_word ''x''],
      vl_next = tt_newline\<rparr>
     root_scope = Inl (Fail ''attempt to set'') \<and>
   (\<exists>err. run_script
      [\<lparr>vl_name = ''~'', vl_kind = tt_prepend, vl_value = Inr [literal_word ''x''],
        vl_next = tt_newline\<rparr>] root_scope = Inl err) \<and>
   run_script sample_lines root_scope =
     Inr [''*'' \<mapsto> Some [''foo''], ''test'' \<mapsto> Some [''foo''], ''0'' \<mapsto> Some [''foo''],
          ''x'' \<mapsto> Some [''foo'']] \<and>
   \<not> special_alias ''test'' \<and> \<not> special_alias ''x'' \<and>
   [''*'' \<mapsto> Some [''foo''], ''test'' \<mapsto> Some [''foo''], ''0'' \<mapsto> Some [''foo''],
    ''x'' \<mapsto> Some [''foo'']] ''~'' = root_scope ''~''"
proof -
  have s: "special_alias ''42''" "special_alias ''*''" "special_alias ''~''"
    by (simp_all add: special_alias_def digit_def)
  note w1 = parse_variable_line_alias [where ln =
      "\<lparr>vl_name = ''42'', vl_kind = tt_assign, vl_value = Inr [literal_word ''x''],
        vl_next = tt_newline\<rparr>"
      and sc = root_scope, THEN conjunct1, rule_format]
  note w2 = parse_variable_line_alias [where ln =
      "\<lparr>vl_name = ''*'', vl_kind = tt_append, vl_value = Inr [literal_word ''x''],
        vl_next = tt_newline\<rparr>"
      and sc = root_scope, THEN conjunct1, rule_format]
  note w3 = parse_variable_line_alias [where ln =
      "\<lparr>vl_name = ''~'', vl_kind = tt_prepend, vl_value = Inr [literal_word ''x''],
        vl_next = tt_newline\<rparr>"
      and lns = "[\<lparr>vl_name = ''~'', vl_kind = tt_prepend, vl_value = Inr [literal_word ''x''],
        vl_next = tt_newline\<rparr>]"
      and sc = root_scope, THEN conjunct2, THEN conjunct1, rule_format]
  note w4 = parse_variable_line_alias [where lns = sample_lines and sc = root_scope
      and sc' = "[''*'' \<mapsto> Some [''foo''], ''test'' \<mapsto> Some [''foo''],
                  ''0'' \<mapsto> Some [''foo''], ''x'' \<mapsto> Some [''foo'']]",
      THEN conjunct2, THEN conjunct2, THEN conjunct1, rule_format, OF sample_lines_run]
  have 1: "parse_variable_line True
     \<lparr>vl_name = ''42'', vl_kind = tt_assign, vl_value = Inr [literal_word ''x''],
      vl_next = tt_newline\<rparr>
     root_scope = Inl (Fail ''attempt to set'')"
    by (rule w1) (simp add: s)
  have 2: "parse_variable_line True
     \<lparr>vl_name = ''*'', vl_kind = tt_append, vl_value = Inr [literal_word ''x''],
      vl_next = tt_newline\<rparr>
     root_scope = Inl (Fail ''attempt to set'')"
    by (rule w2) (simp add: s)
  have 3: "\<exists>err. run_script
      [\<lparr>vl_name = ''~'', vl_kind = tt_prepend, vl_value = Inr [literal_word ''x''],
        vl_next = tt_newline\<rparr>] root_scope = Inl err"
    by (rule w3) (simp add: s)
  from w4 have 4: "\<not> special_alias ''test''" "\<not> special_alias ''x''"
    and 5: "[''*'' \<mapsto> Some [''foo''], ''test'' \<mapsto> Some [''foo''], ''0'' \<mapsto> Some [''foo''],
             ''x'' \<mapsto> Some [''foo'']] ''~'' = root_scope ''~''"
    by (simp_all add: sample_lines_def)
  from s 1 2 3 sample_lines_run 4 5 show ?thesis by (intro conjI)
qed

section \<open>Theorems: command expressions\<close>

subsection \<open>check_command and parse_redirect\<close>

lemma family_not_alias:
  "in_family tt \<or> out_family tt \<Longrightarrow>
   \<not> (tt = in_l \<or> tt = in_ll \<or> tt = in_lll \<or> tt = out_g \<or> tt = out_gg \<or> tt = out_ggg)"
  by (auto simp: in_family_def out_family_def)

lemma family_disjoint: "in_family tt \<Longrightarrow> \<not> out_family tt"
  by (auto simp: in_family_def out_family_def)

lemma check_command_merge:
  "c_out c = Some ro \<Longrightarrow> rtype ro = rt_merge \<Longrightarrow> c_err c = Some re \<Longrightarrow> rtype re = rt_merge \<Longrightarrow>
   check_command c lst = Inl (Fail ''stdout and stderr redirected to each other'')"
  by (simp add: check_command_def)

lemma parse_redirect_fd_error:
  "redirect_fd t tt st = Inl err \<Longrightarrow> parse_redirect pp t tt st = Inl err"
  by (simp add: parse_redirect_def)

lemma redirect_fd_explicit_invalid:
  assumes "in_family tt \<or> out_family tt" "ps_p st = p_none" "ps_mod st = []"
    "\<not> separated t" "arguments (ps_c st) \<noteq> []"
    "\<forall>fd. stoul (last (arguments (ps_c st))) = Some (fd, length (last (arguments (ps_c st)))) \<longrightarrow> fd > 2"
  shows "redirect_fd t tt st = Inl (Fail ''invalid redirect file descriptor'')"
proof -
  note na = family_not_alias[OF assms(1)]
  show ?thesis
  proof (cases "stoul (last (arguments (ps_c st)))")
    case None
    then show ?thesis using na assms by (simp add: redirect_fd_def Let_def)
  next
    case (Some a)
    obtain fd n where a: "a = (fd, n)" by (cases a)
    have "n \<noteq> length (last (arguments (ps_c st))) \<or> fd > 2"
      using assms(6) Some a by auto
    then show ?thesis using na assms(2-5) Some a by (simp add: redirect_fd_def Let_def)
  qed
qed

lemma redirect_fd_explicit:
  assumes "in_family tt \<or> out_family tt" "ps_p st = p_none" "ps_mod st = []"
    "\<not> separated t" "arguments (ps_c st) \<noteq> []"
    "stoul (last (arguments (ps_c st))) = Some (fd, length (last (arguments (ps_c st))))" "fd \<le> 2"
  shows "in_family tt \<and> fd \<noteq> 0 \<longrightarrow> redirect_fd t tt st = Inl (Fail ''invalid in redirect file descriptor'')"
    and "out_family tt \<and> fd = 0 \<longrightarrow> redirect_fd t tt st = Inl (Fail ''invalid out redirect file descriptor'')"
    and "out_family tt \<and> fd \<noteq> 0 \<longrightarrow>
      redirect_fd t tt st = Inr (fd, (ps_c st)\<lparr>arguments := butlast (arguments (ps_c st))\<rparr>)"
proof -
  note na = family_not_alias[OF assms(1)]
  have f3: "fd \<noteq> 3" using assms(7) by simp
  show "in_family tt \<and> fd \<noteq> 0 \<longrightarrow> redirect_fd t tt st = Inl (Fail ''invalid in redirect file descriptor'')"
    using na assms(2-7) f3 by (simp add: redirect_fd_def Let_def)
  show "out_family tt \<and> fd = 0 \<longrightarrow> redirect_fd t tt st = Inl (Fail ''invalid out redirect file descriptor'')"
    using na assms(2-7) family_disjoint[of tt] by (auto simp: redirect_fd_def Let_def)
  show "out_family tt \<and> fd \<noteq> 0 \<longrightarrow>
      redirect_fd t tt st = Inr (fd, (ps_c st)\<lparr>arguments := butlast (arguments (ps_c st))\<rparr>)"
    using na assms(2-7) f3 family_disjoint[of tt] by (auto simp: redirect_fd_def Let_def)
qed

lemma redirect_fd_piped:
  assumes "in_family tt" "ps_expr st \<noteq> []" "et_pipe (last (ps_expr st)) \<noteq> []"
  shows "\<exists>err. redirect_fd t tt st = Inl err"
    and "ps_p st = p_none \<and> ps_mod st = [] \<and> separated t \<longrightarrow>
      redirect_fd t tt st = Inl (Fail ''stdin is both piped and redirected'')"
proof -
  have na: "\<not> (tt = in_l \<or> tt = in_ll \<or> tt = in_lll \<or> tt = out_g \<or> tt = out_gg \<or> tt = out_ggg)"
    using family_not_alias assms(1) by blast
  show "ps_p st = p_none \<and> ps_mod st = [] \<and> separated t \<longrightarrow>
      redirect_fd t tt st = Inl (Fail ''stdin is both piped and redirected'')"
    using na assms by (simp add: redirect_fd_def Let_def)
  show "\<exists>err. redirect_fd t tt st = Inl err"
    using assms by (auto simp: redirect_fd_def Let_def split: option.splits sum.splits prod.splits)
qed

lemma redirect_fd_default:
  assumes "separated t" "redirect_fd t tt st = Inr (fd, c1)"
  shows "c1 = ps_c st" "in_family tt \<longrightarrow> fd = 0" "out_family tt \<longrightarrow> fd = 1"
  using assms family_disjoint[of tt]
  by (auto simp: redirect_fd_def Let_def split: if_splits)

lemma redirect_fd_default_ok:
  assumes "separated t" "ps_p st = p_none" "ps_mod st = []"
  shows "in_family tt \<and> ps_expr st \<noteq> [] \<and> et_pipe (last (ps_expr st)) = [] \<longrightarrow>
      redirect_fd t tt st = Inr (0, ps_c st)"
    and "out_family tt \<longrightarrow> redirect_fd t tt st = Inr (1, ps_c st)"
  using assms family_disjoint[of tt] family_not_alias[of tt]
  by (auto simp: redirect_fd_def Let_def)

lemma parse_redirect_stores:
  assumes "parse_redirect pp t tt st = Inr st'" "redirect_fd t tt st = Inr (fd, c1)"
  shows "\<exists>r. get_redirect (ps_c st') (int fd) = Some r \<and> rtoken r = t"
  using assms
  by (auto simp: parse_redirect_def Let_def get_redirect_def set_redirect_def split: sum.splits)


lemma stoul_samples:
  "stoul ''0'' = Some (0, 1)" "stoul ''2'' = Some (2, 1)" "stoul ''3'' = Some (3, 1)"
  by (simp_all add: stoul_def isspace_def isdigit_def decimal_def)

text \<open>
  What \<^verbatim>\<open>check_command\<close> and the descriptor part of \<^verbatim>\<open>parse_redirect\<close> reject, for a
  redirect token of the input or output family parsed with nothing pending: a command
  whose stdout and stderr redirects are both merges; an input redirect when the current
  pipe already has a command (with the message that stdin is both piped and redirected
  when the descriptor is the default one); an explicit descriptor word that \<^verbatim>\<open>stoul\<close> does
  not read as a whole as a number up to 2; an explicit non-zero descriptor on an input
  redirect and an explicit 0 on an output redirect. A redirect without explicit
  descriptor that is accepted is stored as the stdin redirect for the input family and
  as the stdout redirect for the output family.
\<close>

lemma parse_redirect_checks:
  assumes fam: "in_family tt \<or> out_family tt" and pend: "ps_p st = p_none" "ps_mod st = []"
  shows
    "(c_out c = Some ro \<and> rtype ro = rt_merge \<and> c_err c = Some re \<and> rtype re = rt_merge \<longrightarrow>
        check_command c lst = Inl (Fail ''stdout and stderr redirected to each other'')) \<and>
     (in_family tt \<and> ps_expr st \<noteq> [] \<and> et_pipe (last (ps_expr st)) \<noteq> [] \<longrightarrow>
        (\<exists>err. parse_redirect pp t tt st = Inl err) \<and>
        (separated t \<longrightarrow>
           parse_redirect pp t tt st = Inl (Fail ''stdin is both piped and redirected''))) \<and>
     (\<not> separated t \<and> arguments (ps_c st) \<noteq> [] \<and>
      (\<forall>fd. stoul (last (arguments (ps_c st))) =
              Some (fd, length (last (arguments (ps_c st)))) \<longrightarrow> fd > 2) \<longrightarrow>
        parse_redirect pp t tt st = Inl (Fail ''invalid redirect file descriptor'')) \<and>
     (\<not> separated t \<and> arguments (ps_c st) \<noteq> [] \<and>
      stoul (last (arguments (ps_c st))) = Some (fd, length (last (arguments (ps_c st)))) \<and>
      fd \<le> 2 \<longrightarrow>
        (in_family tt \<and> fd \<noteq> 0 \<longrightarrow>
           parse_redirect pp t tt st = Inl (Fail ''invalid in redirect file descriptor'')) \<and>
        (out_family tt \<and> fd = 0 \<longrightarrow>
           parse_redirect pp t tt st = Inl (Fail ''invalid out redirect file descriptor''))) \<and>
     (separated t \<and> parse_redirect pp t tt st = Inr st' \<longrightarrow>
        (in_family tt \<longrightarrow> (\<exists>r. c_in (ps_c st') = Some r \<and> rtoken r = t)) \<and>
        (out_family tt \<longrightarrow> (\<exists>r. c_out (ps_c st') = Some r \<and> rtoken r = t)))"
proof -
  have 1: "c_out c = Some ro \<and> rtype ro = rt_merge \<and> c_err c = Some re \<and> rtype re = rt_merge \<longrightarrow>
        check_command c lst = Inl (Fail ''stdout and stderr redirected to each other'')"
    using check_command_merge by blast
  have 2: "in_family tt \<and> ps_expr st \<noteq> [] \<and> et_pipe (last (ps_expr st)) \<noteq> [] \<longrightarrow>
        (\<exists>err. parse_redirect pp t tt st = Inl err) \<and>
        (separated t \<longrightarrow>
           parse_redirect pp t tt st = Inl (Fail ''stdin is both piped and redirected''))"
  proof
    assume a: "in_family tt \<and> ps_expr st \<noteq> [] \<and> et_pipe (last (ps_expr st)) \<noteq> []"
    then have i: "in_family tt" and e: "ps_expr st \<noteq> []" and p: "et_pipe (last (ps_expr st)) \<noteq> []"
      by simp_all
    from redirect_fd_piped(1)[OF i e p] obtain err where "redirect_fd t tt st = Inl err" by blast
    then have x: "\<exists>err. parse_redirect pp t tt st = Inl err"
      using parse_redirect_fd_error by blast
    have y: "separated t \<longrightarrow>
           parse_redirect pp t tt st = Inl (Fail ''stdin is both piped and redirected'')"
      using redirect_fd_piped(2)[OF i e p] pend parse_redirect_fd_error by blast
    from x y show "(\<exists>err. parse_redirect pp t tt st = Inl err) \<and>
        (separated t \<longrightarrow>
           parse_redirect pp t tt st = Inl (Fail ''stdin is both piped and redirected''))" ..
  qed
  have 3: "\<not> separated t \<and> arguments (ps_c st) \<noteq> [] \<and>
      (\<forall>fd. stoul (last (arguments (ps_c st))) =
              Some (fd, length (last (arguments (ps_c st)))) \<longrightarrow> fd > 2) \<longrightarrow>
        parse_redirect pp t tt st = Inl (Fail ''invalid redirect file descriptor'')"
    using redirect_fd_explicit_invalid[OF fam pend] parse_redirect_fd_error by blast
  have 4: "\<not> separated t \<and> arguments (ps_c st) \<noteq> [] \<and>
      stoul (last (arguments (ps_c st))) = Some (fd, length (last (arguments (ps_c st)))) \<and>
      fd \<le> 2 \<longrightarrow>
        (in_family tt \<and> fd \<noteq> 0 \<longrightarrow>
           parse_redirect pp t tt st = Inl (Fail ''invalid in redirect file descriptor'')) \<and>
        (out_family tt \<and> fd = 0 \<longrightarrow>
           parse_redirect pp t tt st = Inl (Fail ''invalid out redirect file descriptor''))"
    using redirect_fd_explicit(1,2)[OF fam pend] parse_redirect_fd_error by blast
  have 5: "separated t \<and> parse_redirect pp t tt st = Inr st' \<longrightarrow>
        (in_family tt \<longrightarrow> (\<exists>r. c_in (ps_c st') = Some r \<and> rtoken r = t)) \<and>
        (out_family tt \<longrightarrow> (\<exists>r. c_out (ps_c st') = Some r \<and> rtoken r = t))"
  proof
    assume a: "separated t \<and> parse_redirect pp t tt st = Inr st'"
    then obtain fd0 c1 where f: "redirect_fd t tt st = Inr (fd0, c1)"
      by (auto simp: parse_redirect_def split: sum.splits)
    from a have s: "separated t" and p: "parse_redirect pp t tt st = Inr st'" by simp_all
    note d = redirect_fd_default[OF s f]
    from parse_redirect_stores[OF p f] obtain r where
      r: "get_redirect (ps_c st') (int fd0) = Some r" "rtoken r = t" by blast
    show "(in_family tt \<longrightarrow> (\<exists>r. c_in (ps_c st') = Some r \<and> rtoken r = t)) \<and>
        (out_family tt \<longrightarrow> (\<exists>r. c_out (ps_c st') = Some r \<and> rtoken r = t))"
      using d(2,3) r by (auto simp: get_redirect_def)
  qed
  from 1 2 3 4 5 show ?thesis by (intro conjI)
qed

lemma parse_redirect_checks_sample:
  "out_family out_str \<and> ps_p sample_pstate = p_none \<and> ps_mod sample_pstate = [] \<and>
   \<not> separated (sample_token out_str False) \<and>
   arguments (ps_c sample_pstate) \<noteq> [] \<and>
   stoul (last (arguments (ps_c sample_pstate))) = Some (3, 1) \<and>
   parse_redirect False (sample_token out_str False) out_str sample_pstate =
     Inl (Fail ''invalid redirect file descriptor'') \<and>
   (\<exists>r. c_out (ps_c (the_inr (parse_redirect False (sample_token out_str True) out_str
                       sample_pstate))) = Some r \<and>
        rtoken r = sample_token out_str True)"
proof -
  have o: "out_family out_str" by (simp add: out_family_def)
  have p: "ps_p sample_pstate = p_none" "ps_mod sample_pstate = []"
    by (simp_all add: sample_pstate_def start_pstate_def)
  have s: "\<not> separated (sample_token out_str False)" "separated (sample_token out_str True)"
    by (simp_all add: sample_token_def)
  have a: "arguments (ps_c sample_pstate) \<noteq> []" "last (arguments (ps_c sample_pstate)) = ''3''"
    by (simp_all add: sample_pstate_def start_pstate_def new_command_def)
  have st: "stoul (last (arguments (ps_c sample_pstate))) = Some (3, 1)"
    by (simp add: a stoul_samples)
  note w = parse_redirect_checks [where tt = out_str and st = sample_pstate, OF disjI2 [OF o] p]
  have 1: "parse_redirect False (sample_token out_str False) out_str sample_pstate =
     Inl (Fail ''invalid redirect file descriptor'')"
    by (rule w [where t = "sample_token out_str False" and pp = False, THEN conjunct2,
          THEN conjunct2, THEN conjunct1, rule_format]) (simp add: s a stoul_samples)
  have ok: "parse_redirect False (sample_token out_str True) out_str sample_pstate =
      Inr (the_inr (parse_redirect False (sample_token out_str True) out_str sample_pstate))"
    by (simp add: parse_redirect_def redirect_fd_def redirect_kind_def redirect_pending_def
        sample_token_def sample_pstate_def start_pstate_def out_family_def in_family_def
        the_inr_def Let_def)
  have 2: "\<exists>r. c_out (ps_c (the_inr (parse_redirect False (sample_token out_str True) out_str
                       sample_pstate))) = Some r \<and>
        rtoken r = sample_token out_str True"
    using w [where t = "sample_token out_str True" and pp = False
        and st' = "the_inr (parse_redirect False (sample_token out_str True) out_str sample_pstate)",
        THEN conjunct2, THEN conjunct2, THEN conjunct2, THEN conjunct2] s(2) ok o
    by blast
  from o p s(1) a(1) st 1 2 show ?thesis by (intro conjI)
qed

lemma stoul_wrapped: "stoul ''-18446744073709551615'' = Some (1, 21)"
  by (simp add: stoul_def isspace_def isdigit_def decimal_def)

text \<open>
  Claim C9 at a failing input. The command is \<open>cat -18446744073709551615>out\<close>: a
  here-string redirect directly follows a word that is not 0, 1 or 2. \<^verbatim>\<open>stoul\<close> reads
  the word as a whole, negates the value modulo \<open>2^64\<close> and yields 1, so the descriptor
  check passes and \<^verbatim>\<open>parse_redirect\<close> raises nothing: it takes the word off the arguments
  and stores the redirect as the stdout redirect of the command.
\<close>

theorem parse_redirect_wrapped_descriptor:
  "parse_redirect False (sample_token out_str False) out_str wrapped_pstate =
     Inr (wrapped_pstate
            \<lparr>ps_c := (ps_c wrapped_pstate)
               \<lparr>arguments := [],
                c_out := Some ((new_redirect rt_here_str_literal)
                                 \<lparr>rtoken := sample_token out_str False\<rparr>)\<rparr>,
             ps_p := p_out_string\<rparr>)"
  by (simp add: parse_redirect_def redirect_fd_def redirect_kind_def redirect_pending_def
      get_redirect_def set_redirect_def new_redirect_def stoul_wrapped
      sample_token_def wrapped_pstate_def start_pstate_def new_command_def
      out_family_def in_family_def Let_def)

subsection \<open>Here-documents: sharing\<close>


lemma find_doc_Some: "find_doc e hds = Some d \<Longrightarrow> d \<in> set hds \<and> end_marker d = e"
  by (induction hds) (auto split: if_splits)























lemma eoo_pre_parse:
  "pre_parse_doc eoo_out eoo_word eoo_err start_pstate =
     Inr (start_pstate\<lparr>ps_hd := [eoo_doc\<lparr>redirects := []\<rparr>]\<rparr>)"
  by (simp add: pre_parse_doc_def eoo_out_def eoo_word_def eoo_err_def start_pstate_def
      share_here_doc_def empty_regex_parts_def eoo_doc_def Let_def)







section \<open>Theorems: executing the lines of a script\<close>

text \<open>
  Claim C8 at a failing input. The script is \<open>if c0; A; elif c2; B; end; C\<close>, run with
  the line index 1. When the \<open>if\<close> branch is taken, \<open>A\<close> runs with index 2, the \<open>elif\<close>
  line and \<open>B\<close> are skipped, and \<open>C\<close> runs with index 4: the skipped \<open>elif\<close> line, at
  which the scan for the end starts, was not counted, and the index after the construct
  is 4. When instead the \<open>elif\<close> branch is taken, every line of the construct is counted,
  \<open>C\<close> runs with index 5, and the index after the construct is 5.
\<close>

theorem exec_lines_skipped_elif:
  "exec_lines (trace_callbacks (\<lambda>i. True)) sample_script 0 6 1 [] =
     Returned True 5 [(0, 1), (1, 2), (5, 4)] \<and>
   exec_lines (trace_callbacks (\<lambda>i. True)) sample_script 0 5 1 [] =
     Returned True 4 [(0, 1), (1, 2)] \<and>
   exec_lines (trace_callbacks (\<lambda>i. i = 2)) sample_script 0 6 1 [] =
     Returned True 6 [(0, 1), (2, 3), (3, 4), (5, 5)] \<and>
   exec_lines (trace_callbacks (\<lambda>i. i = 2)) sample_script 0 5 1 [] =
     Returned True 5 [(0, 1), (2, 3), (3, 4)]"
  by code_simp

end
